theory Spec2Isabelle
  imports Complex_Main
begin

section \<open>Python regular expressions, as the extractors use them\<close>

text \<open>
  The extractors match URLs and response text with Python's \<^verbatim>\<open>re\<close> module, a
  backtracking matcher: alternatives are tried left to right, a greedy repetition tries
  the longest run first, a lazy one the shortest. The model enumerates the ways a pattern
  matches a prefix of the text in exactly that priority order; Python's match is the
  first. Text is 8-bit (\<^typ>\<open>string\<close>), so \<^verbatim>\<open>\d\<close>, \<^verbatim>\<open>\w\<close> and \<^verbatim>\<open>\s\<close> are the ASCII classes.
\<close>

datatype rx =
    Str string            \<comment> \<open>a run of literal characters\<close>
  | OneOf string          \<comment> \<open>\<^verbatim>\<open>[abc]\<close>\<close>
  | NoneOf string         \<comment> \<open>\<^verbatim>\<open>[^abc]\<close>\<close>
  | Digit                 \<comment> \<open>\<^verbatim>\<open>\d\<close>\<close>
  | Word                  \<comment> \<open>\<^verbatim>\<open>\w\<close>\<close>
  | Space                 \<comment> \<open>\<^verbatim>\<open>\s\<close>\<close>
  | Dot                   \<comment> \<open>\<^verbatim>\<open>.\<close>: anything but a newline\<close>
  | Eol                   \<comment> \<open>\<^verbatim>\<open>$\<close>: the end, or just before a final newline\<close>
  | Seq rx rx
  | Alt rx rx
  | Opt rx                \<comment> \<open>\<^verbatim>\<open>r?\<close>\<close>
  | Star rx               \<comment> \<open>\<^verbatim>\<open>r*\<close>, greedy\<close>
  | Plus rx               \<comment> \<open>\<^verbatim>\<open>r+\<close>, greedy\<close>
  | LazyStar rx           \<comment> \<open>\<^verbatim>\<open>r*?\<close>\<close>
  | Rep nat rx            \<comment> \<open>\<^verbatim>\<open>r{n}\<close>\<close>
  | Group string rx       \<comment> \<open>a capturing group, named or numbered\<close>

type_synonym caps = "(string \<times> string) list"

definition is_digit :: "char \<Rightarrow> bool" where
  "is_digit c = (c \<in> set ''0123456789'')"

definition is_lower :: "char \<Rightarrow> bool" where
  "is_lower c = (c \<in> set ''abcdefghijklmnopqrstuvwxyz'')"

definition is_upper :: "char \<Rightarrow> bool" where
  "is_upper c = (c \<in> set ''ABCDEFGHIJKLMNOPQRSTUVWXYZ'')"

definition is_word :: "char \<Rightarrow> bool" where
  "is_word c = (is_digit c \<or> is_lower c \<or> is_upper c \<or> c = CHR ''_'')"

definition is_space :: "char \<Rightarrow> bool" where
  "is_space c = (c \<in> set [CHR '' '', CHR 0x09, CHR 0x0A, CHR 0x0B, CHR 0x0C, CHR 0x0D])"

text \<open>One character of a class: the only continuation is the rest of the text.\<close>

definition one_char :: "(char \<Rightarrow> bool) \<Rightarrow> string \<Rightarrow> (string \<times> caps) list" where
  "one_char p s = (case s of [] \<Rightarrow> [] | c # cs \<Rightarrow> (if p c then [(cs, [])] else []))"

fun strip_prefix :: "string \<Rightarrow> string \<Rightarrow> string option" where
  "strip_prefix [] s = Some s"
| "strip_prefix (p # ps) [] = None"
| "strip_prefix (p # ps) (c # cs) = (if p = c then strip_prefix ps cs else None)"

text \<open>
  Sequencing: every way of matching the first part, in order, followed by every way of
  matching the second part on what is left.
\<close>

definition and_then :: "(string \<times> caps) list \<Rightarrow> (string \<Rightarrow> (string \<times> caps) list) \<Rightarrow> (string \<times> caps) list" where
  "and_then rs k = concat (map (\<lambda>(rest, c). map (\<lambda>(rest', c'). (rest', c @ c')) (k rest)) rs)"

text \<open>
  Repetition. The fuel is the length of the text: an iteration that consumes nothing is
  not repeated (as in Python), so each further iteration works on a shorter text.
\<close>

definition progress :: "string \<Rightarrow> (string \<times> caps) list \<Rightarrow> (string \<times> caps) list" where
  "progress s rs = filter (\<lambda>(rest, c). length rest < length s) rs"

primrec star_iter :: "nat \<Rightarrow> (string \<Rightarrow> (string \<times> caps) list) \<Rightarrow> string \<Rightarrow> (string \<times> caps) list" where
  "star_iter 0 m s = [(s, [])]"
| "star_iter (Suc n) m s = and_then (progress s (m s)) (star_iter n m) @ [(s, [])]"

primrec lazy_iter :: "nat \<Rightarrow> (string \<Rightarrow> (string \<times> caps) list) \<Rightarrow> string \<Rightarrow> (string \<times> caps) list" where
  "lazy_iter 0 m s = [(s, [])]"
| "lazy_iter (Suc n) m s = (s, []) # and_then (progress s (m s)) (lazy_iter n m)"

primrec rep_iter :: "nat \<Rightarrow> (string \<Rightarrow> (string \<times> caps) list) \<Rightarrow> string \<Rightarrow> (string \<times> caps) list" where
  "rep_iter 0 m s = [(s, [])]"
| "rep_iter (Suc n) m s = and_then (m s) (rep_iter n m)"

primrec rmatch :: "rx \<Rightarrow> string \<Rightarrow> (string \<times> caps) list" where
  "rmatch (Str p) = (\<lambda>s. case strip_prefix p s of None \<Rightarrow> [] | Some rest \<Rightarrow> [(rest, [])])"
| "rmatch (OneOf cs) = one_char (\<lambda>c. c \<in> set cs)"
| "rmatch (NoneOf cs) = one_char (\<lambda>c. c \<notin> set cs)"
| "rmatch Digit = one_char is_digit"
| "rmatch Word = one_char is_word"
| "rmatch Space = one_char is_space"
| "rmatch Dot = one_char (\<lambda>c. c \<noteq> CHR 0x0A)"
| "rmatch Eol = (\<lambda>s. if s = [] \<or> s = [CHR 0x0A] then [(s, [])] else [])"
| "rmatch (Seq r1 r2) = (\<lambda>s. and_then (rmatch r1 s) (rmatch r2))"
| "rmatch (Alt r1 r2) = (\<lambda>s. rmatch r1 s @ rmatch r2 s)"
| "rmatch (Opt r) = (\<lambda>s. rmatch r s @ [(s, [])])"
| "rmatch (Star r) = (\<lambda>s. star_iter (length s) (rmatch r) s)"
| "rmatch (Plus r) = (\<lambda>s. and_then (rmatch r s) (\<lambda>t. star_iter (length t) (rmatch r) t))"
| "rmatch (LazyStar r) = (\<lambda>s. lazy_iter (length s) (rmatch r) s)"
| "rmatch (Rep n r) = rep_iter n (rmatch r)"
| "rmatch (Group g r) =
     (\<lambda>s. map (\<lambda>(rest, c). (rest, c @ [(g, take (length s - length rest) s)])) (rmatch r s))"

text \<open>
  \<^verbatim>\<open>re.match(pattern, s)\<close>: the first way the pattern matches at the start of the text,
  as the groups it captured (\<open>None\<close> when there is no match). A group captured more than
  once keeps its last capture.
\<close>

definition re_match :: "rx \<Rightarrow> string \<Rightarrow> caps option" where
  "re_match r s = (case rmatch r s of [] \<Rightarrow> None | (rest, c) # _ \<Rightarrow> Some c)"

definition re_group :: "caps \<Rightarrow> string \<Rightarrow> string option" where
  "re_group c g = map_of (rev c) g"

text \<open>\<^verbatim>\<open>re.search(pattern, s)\<close>: the first match at the leftmost position that has one.\<close>

fun re_search :: "rx \<Rightarrow> string \<Rightarrow> caps option" where
  "re_search r [] = re_match r []"
| "re_search r (c # cs) =
     (case re_match r (c # cs) of Some m \<Rightarrow> Some m | None \<Rightarrow> re_search r cs)"

fun seqs :: "rx list \<Rightarrow> rx" where
  "seqs [] = Str []"
| "seqs [r] = r"
| "seqs (r # rs) = Seq r (seqs rs)"

section \<open>URL patterns and fixtures of the extractors\<close>

text \<open>Each \<^verbatim>\<open>_VALID_URL\<close>, transcribed piece by piece (the verbose ones without their layout).\<close>

definition https :: rx where
  "https = seqs [Str ''http'', Opt (Str ''s''), Str ''://'']"

definition JTBCIE_VALID_URL :: rx where
  "JTBCIE_VALID_URL = seqs [https,
     Alt (seqs [Str ''vod.jtbc.co.kr/player/'', Alt (Str ''program'') (Str ''clip'')])
         (seqs [Str ''tv.jtbc.co.kr/'', Alt (Str ''replay'') (Alt (Str ''trailer'') (Str ''clip'')),
                Str ''/pr'', Plus Digit, Str ''/pm'', Plus Digit]),
     Str ''/'',
     Group ''id'' (Seq (Alt (Str ''ep'') (Str ''vo'')) (Plus Digit))]"

definition JTBCProgramIE_VALID_URL :: rx where
  "JTBCProgramIE_VALID_URL = seqs [https,
     Alt (Str ''vod.jtbc.co.kr/program'') (Str ''tv.jtbc.co.kr/replay''),
     Str ''/'',
     Group ''id'' (Seq (Str ''pr'') (Plus Digit)),
     Str ''/'',
     Alt (Str ''replay'') (Seq (Str ''pm'') (Plus Digit)),
     Opt (Str ''/''),
     Alt Eol (OneOf ''?#'')]"

definition ServusIE_VALID_URL :: rx where
  "ServusIE_VALID_URL = seqs [https,
     Opt (Str ''www.''),
     Alt (seqs [Str ''servus.com/'',
                Alt (seqs [Alt (Str ''at'') (Str ''de''), Str ''/p/'', Plus (NoneOf ''/'')])
                    (Str ''tv/videos'')])
         (seqs [Alt (Str ''servustv'') (Str ''pm-wissen''), Str ''.com/'',
                Opt (Seq (Plus (NoneOf ''/'')) (Str ''/'')),
                Str ''v'', Opt (Str ''ideos'')]),
     Str ''/'',
     Group ''id'' (Alt (seqs [Rep 2 (OneOf ''aA''), Opt (Str ''-''), Plus Word])
                       (seqs [Plus Digit, Str ''-'', Plus Digit]))]"

definition manototv :: rx where
  "manototv = seqs [https, Opt (Str ''www.''), Str ''manototv.com/'']"

definition ManotoTVIE_VALID_URL :: rx where
  "ManotoTVIE_VALID_URL = seqs [manototv, Str ''episode/'', Group ''id'' (Plus (OneOf ''0123456789''))]"

definition ManotoTVShowIE_VALID_URL :: rx where
  "ManotoTVShowIE_VALID_URL = seqs [manototv, Str ''show/'', Group ''id'' (Plus (OneOf ''0123456789''))]"

definition ManotoTVLiveIE_VALID_URL :: rx where
  "ManotoTVLiveIE_VALID_URL = seqs [manototv, Str ''live/'']"

definition VRTIE_VALID_URL :: rx where
  "VRTIE_VALID_URL = seqs [https, Opt (Str ''www.''), Str ''vrt.be/vrtnu/a-z/'',
     Rep 2 (Seq (Plus (NoneOf ''/'')) (Str ''/'')),
     Group ''id'' (Plus (NoneOf ''/?#&''))]"

definition Kanal2IE_VALID_URL :: rx where
  "Kanal2IE_VALID_URL = seqs [https, Plus Dot, Str ''.postimees.ee/'', Plus (NoneOf ''?''), Str ''?'',
     Opt (Group ''1'' (Seq (LazyStar Dot) (Str ''&''))),
     Str ''id='',
     Group ''id'' (Plus Digit)]"

text \<open>
  Modelled from the spec: the host framework's base extractor class is not under src/;
  its \<^verbatim>\<open>suitable\<close> and \<^verbatim>\<open>_match_id\<close> are what the spec calls "match a URL against a fixed
  pattern and extract an identifier": the pattern is matched at the start of the URL and
  the identifier is the group named \<^verbatim>\<open>id\<close>.
\<close>

definition suitable :: "rx \<Rightarrow> string \<Rightarrow> bool" where
  "suitable valid_url url = (re_match valid_url url \<noteq> None)"

definition match_id :: "rx \<Rightarrow> string \<Rightarrow> string option" where
  "match_id valid_url url = (case re_match valid_url url of None \<Rightarrow> None | Some c \<Rightarrow> re_group c ''id'')"

text \<open>
  The fixtures (\<^verbatim>\<open>_TESTS\<close>, \<^verbatim>\<open>_TEST\<close>) of each extractor: the URL and, where the fixture
  has an \<^verbatim>\<open>info_dict\<close>, its \<^verbatim>\<open>id\<close> (\<open>None\<close> for an \<^verbatim>\<open>only_matching\<close> entry).
\<close>

record fixture =
  url :: string
  expected_id :: "string option"

definition fx :: "string \<Rightarrow> string option \<Rightarrow> fixture" where
  "fx u i = \<lparr>url = u, expected_id = i\<rparr>"

definition JTBCIE_TESTS :: "fixture list" where
  "JTBCIE_TESTS =
    [fx ''https://tv.jtbc.co.kr/replay/pr10011629/pm10067930/ep20216321/view'' (Some ''ep20216321''),
     fx ''https://vod.jtbc.co.kr/player/program/ep20216733'' (Some ''ep20216733''),
     fx ''https://vod.jtbc.co.kr/player/clip/vo10721270'' (Some ''vo10721270''),
     fx ''https://tv.jtbc.co.kr/trailer/pr10010392/pm10032526/vo10720912/view'' (Some ''vo10720912'')]"

definition JTBCProgramIE_TESTS :: "fixture list" where
  "JTBCProgramIE_TESTS =
    [fx ''https://tv.jtbc.co.kr/replay/pr10010392/pm10032710'' (Some ''pr10010392''),
     fx ''https://vod.jtbc.co.kr/program/pr10011491/replay'' (Some ''pr10011491'')]"

definition ServusIE_TESTS :: "fixture list" where
  "ServusIE_TESTS =
    [fx ''https://www.servustv.com/natur/v/aa-28bycqnh92111/'' (Some ''AA-28BYCQNH92111''),
     fx ''https://www.pm-wissen.com/videos/aa-24mus4g2w2112/'' None,
     fx ''https://www.servustv.com/natur/v/aa-1xg5xwmgw2112/'' None,
     fx ''https://www.servustv.com/natur/v/aansszcx3yi9jmlmhdc1/'' None]"

definition ManotoTVIE_TEST :: "fixture list" where
  "ManotoTVIE_TEST = [fx ''https://www.manototv.com/episode/12576'' (Some ''12576'')]"

definition ManotoTVShowIE_TESTS :: "fixture list" where
  "ManotoTVShowIE_TESTS = [fx ''https://www.manototv.com/show/2526'' (Some ''2526'')]"

definition ManotoTVLiveIE_TEST :: "fixture list" where
  "ManotoTVLiveIE_TEST = [fx ''https://www.manototv.com/live/'' (Some ''live'')]"

definition VRTIE_TESTS :: "fixture list" where
  "VRTIE_TESTS =
    [fx ''https://www.vrt.be/vrtnu/a-z/de-ideale-wereld/2023-vj/de-ideale-wereld-d20230116/''
        (Some ''pbs-pub-855b00a8-6ce2-4032-ac4f-1fcf3ae78524$vid-d2243aa1-ec46-4e34-a55b-92568459906f'')]"

definition Kanal2IE_TESTS :: "fixture list" where
  "Kanal2IE_TESTS = [fx ''https://kanal2.postimees.ee/pluss/video/?id=40792'' (Some ''40792'')]"

text \<open>\<^verbatim>\<open>str.upper\<close> on ASCII text.\<close>

definition to_upper :: "char \<Rightarrow> char" where
  "to_upper c = (case map_of (zip ''abcdefghijklmnopqrstuvwxyz'' ''ABCDEFGHIJKLMNOPQRSTUVWXYZ'') c of
                   None \<Rightarrow> c | Some C \<Rightarrow> C)"

definition upper :: "string \<Rightarrow> string" where
  "upper s = map to_upper s"

text \<open>
  What the test suite's claim asks of one fixture: the pattern accepts its URL, and the
  \<^verbatim>\<open>id\<close> group is the \<^verbatim>\<open>id\<close> of its \<^verbatim>\<open>info_dict\<close>, when it has one.
\<close>

definition fixture_id_captured :: "rx \<Rightarrow> fixture \<Rightarrow> bool" where
  "fixture_id_captured valid_url f =
     (suitable valid_url (url f) \<and>
      (case expected_id f of None \<Rightarrow> True | Some i \<Rightarrow> match_id valid_url (url f) = Some i))"

section \<open>Python values, exceptions and the extraction monad\<close>

text \<open>
  The values an extractor handles: parsed JSON and what is built from it. A dictionary is
  an association list (the first binding of a key counts); a float is its exact value.
\<close>

datatype py =
    PNone
  | PBool bool
  | PInt int
  | PFloat rat
  | PStr string
  | PList "py list"
  | PDict "(string \<times> py) list"

datatype cause = HTTPError nat | OtherCause

datatype error =
    ExtractorError py bool "cause option"      \<comment> \<open>message, \<^verbatim>\<open>expected\<close>, \<^verbatim>\<open>cause\<close>\<close>
  | GeoRestrictedError "string list"           \<comment> \<open>the allowed countries\<close>
  | LoginRequiredError
  | RegexNotFoundError string
  | AttributeError
  | KeyError py
  | IndexError
  | TypeError
  | ValueError
  | NameError string

text \<open>
  What an extractor does besides computing: it sends requests, reports warnings and
  sleeps. The log of these events is threaded through; an exception ends the run and
  keeps the log.
\<close>

datatype event = Request string | Warning "py list" | Sleep nat

type_synonym 'a ex = "event list \<Rightarrow> (error + 'a) \<times> event list"

definition ret :: "'a \<Rightarrow> 'a ex" where
  "ret x = (\<lambda>tr. (Inr x, tr))"

definition raise :: "error \<Rightarrow> 'a ex" where
  "raise e = (\<lambda>tr. (Inl e, tr))"

definition bnd :: "'a ex \<Rightarrow> ('a \<Rightarrow> 'b ex) \<Rightarrow> 'b ex" where
  "bnd m f = (\<lambda>tr. case m tr of (Inl e, tr') \<Rightarrow> (Inl e, tr') | (Inr x, tr') \<Rightarrow> f x tr')"

definition lift :: "error + 'a \<Rightarrow> 'a ex" where
  "lift r = (\<lambda>tr. (r, tr))"

definition emit :: "event \<Rightarrow> unit ex" where
  "emit ev = (\<lambda>tr. (Inr (), tr @ [ev]))"

text \<open>
  A warning is logged as the parts of its message: literal text, and the values an
  f-string interpolates.
\<close>

definition report_warning :: "py list \<Rightarrow> unit ex" where
  "report_warning msg = emit (Warning msg)"

definition run :: "'a ex \<Rightarrow> (error + 'a) \<times> event list" where
  "run m = m []"

definition result :: "'a ex \<Rightarrow> error + 'a" where
  "result m = fst (run m)"

definition events :: "'a ex \<Rightarrow> event list" where
  "events m = snd (run m)"

subsection \<open>Python operations that can raise\<close>

definition truthy :: "py \<Rightarrow> bool" where
  "truthy v = (case v of PNone \<Rightarrow> False | PBool b \<Rightarrow> b | PInt n \<Rightarrow> n \<noteq> 0 | PFloat x \<Rightarrow> x \<noteq> 0
     | PStr s \<Rightarrow> s \<noteq> [] | PList xs \<Rightarrow> xs \<noteq> [] | PDict kvs \<Rightarrow> kvs \<noteq> [])"

text \<open>\<^verbatim>\<open>obj.get(key, default)\<close>: only a dictionary has the method.\<close>

definition get_default :: "py \<Rightarrow> string \<Rightarrow> py \<Rightarrow> error + py" where
  "get_default obj k d = (case obj of
       PDict kvs \<Rightarrow> Inr (case map_of kvs k of None \<Rightarrow> d | Some v \<Rightarrow> v)
     | _ \<Rightarrow> Inl AttributeError)"

definition get :: "py \<Rightarrow> string \<Rightarrow> error + py" where
  "get obj k = get_default obj k PNone"

text \<open>\<^verbatim>\<open>obj[key]\<close> with a string key.\<close>

definition item :: "py \<Rightarrow> string \<Rightarrow> error + py" where
  "item obj k = (case obj of
       PDict kvs \<Rightarrow> (case map_of kvs k of None \<Rightarrow> Inl (KeyError (PStr k)) | Some v \<Rightarrow> Inr v)
     | _ \<Rightarrow> Inl TypeError)"

text \<open>\<^verbatim>\<open>obj[i]\<close> with a non-negative integer index.\<close>

definition index :: "py \<Rightarrow> nat \<Rightarrow> error + py" where
  "index obj i = (case obj of
       PList xs \<Rightarrow> (if i < length xs then Inr (xs ! i) else Inl IndexError)
     | PStr s \<Rightarrow> (if i < length s then Inr (PStr [s ! i]) else Inl IndexError)
     | PDict kvs \<Rightarrow> Inl (KeyError (PInt (int i)))
     | _ \<Rightarrow> Inl TypeError)"

fun is_infix :: "string \<Rightarrow> string \<Rightarrow> bool" where
  "is_infix p [] = (p = [])"
| "is_infix p (c # cs) = (strip_prefix p (c # cs) \<noteq> None \<or> is_infix p cs)"

text \<open>\<^verbatim>\<open>key in obj\<close> with a string key.\<close>

definition contains :: "string \<Rightarrow> py \<Rightarrow> error + bool" where
  "contains k obj = (case obj of
       PDict kvs \<Rightarrow> Inr (map_of kvs k \<noteq> None)
     | PList xs \<Rightarrow> Inr (PStr k \<in> set xs)
     | PStr s \<Rightarrow> Inr (is_infix k s)
     | _ \<Rightarrow> Inl TypeError)"

text \<open>\<^verbatim>\<open>obj.isdigit()\<close>: a method of strings only.\<close>

definition isdigit :: "py \<Rightarrow> error + bool" where
  "isdigit v = (case v of PStr s \<Rightarrow> Inr (s \<noteq> [] \<and> list_all is_digit s) | _ \<Rightarrow> Inl AttributeError)"

text \<open>\<^verbatim>\<open>v * n\<close> for a non-negative integer constant \<open>n\<close>.\<close>

definition py_times :: "py \<Rightarrow> nat \<Rightarrow> error + py" where
  "py_times v n = (case v of
       PInt i \<Rightarrow> Inr (PInt (i * int n))
     | PBool b \<Rightarrow> Inr (PInt ((if b then 1 else 0) * int n))
     | PFloat x \<Rightarrow> Inr (PFloat (x * of_nat n))
     | PStr s \<Rightarrow> Inr (PStr (concat (replicate n s)))
     | PList xs \<Rightarrow> Inr (PList (concat (replicate n xs)))
     | _ \<Rightarrow> Inl TypeError)"

text \<open>\<^verbatim>\<open>a + b\<close> where \<open>a\<close> is a string literal.\<close>

definition str_plus :: "string \<Rightarrow> py \<Rightarrow> error + string" where
  "str_plus a v = (case v of PStr s \<Rightarrow> Inr (a @ s) | _ \<Rightarrow> Inl TypeError)"

subsection \<open>The host framework\<close>

text \<open>
  The upstream sites, as the extractor sees them through the framework's download
  helpers: what the \<open>n\<close>-th request of a run answers for a URL.
\<close>

record world =
  json_reply :: "nat \<Rightarrow> string \<Rightarrow> error + py"
  page_reply :: "nat \<Rightarrow> string \<Rightarrow> error + string"
  m3u8_reply :: "py \<Rightarrow> error + py list \<times> py"
  f4m_reply :: "py \<Rightarrow> py list"
  mpd_reply :: "py \<Rightarrow> py list \<times> py"
  ism_reply :: "py \<Rightarrow> py list \<times> py"

definition requests :: "event list \<Rightarrow> nat" where
  "requests tr = length (filter (\<lambda>e. case e of Request _ \<Rightarrow> True | _ \<Rightarrow> False) tr)"

text \<open>
  Modelled from the spec: the download helpers of the base extractor class are not under
  src/ ("issues a few HTTP requests to a fixed set of endpoints"; "all other failures
  propagate to the external caller"). A request is logged, then answers with the parsed
  body or raises the failure.
\<close>

definition download_json :: "'a world_scheme \<Rightarrow> string \<Rightarrow> py ex" where
  "download_json w u = (\<lambda>tr. (json_reply w (requests tr) u, tr @ [Request u]))"

definition download_webpage :: "'a world_scheme \<Rightarrow> string \<Rightarrow> string ex" where
  "download_webpage w u = (\<lambda>tr. (page_reply w (requests tr) u, tr @ [Request u]))"

text \<open>
  Modelled from the spec: manifest parsing "is delegated to the external framework": for a
  manifest URL the framework answers with a list of formats and a dictionary of subtitles,
  or raises.
\<close>

definition extract_m3u8_formats_and_subtitles :: "'a world_scheme \<Rightarrow> py \<Rightarrow> (py list \<times> py) ex" where
  "extract_m3u8_formats_and_subtitles w u = lift (m3u8_reply w u)"

definition extract_m3u8_formats :: "'a world_scheme \<Rightarrow> py \<Rightarrow> py list ex" where
  "extract_m3u8_formats w u = bnd (extract_m3u8_formats_and_subtitles w u) (\<lambda>(fmts, subs). ret fmts)"

text \<open>
  \<^verbatim>\<open>_match_id\<close> inside an extractor: the framework hands \<^verbatim>\<open>_real_extract\<close> only URLs
  its pattern accepts; on any other the match object is \<^verbatim>\<open>None\<close> and reading its group
  raises.
\<close>

definition match_id_ex :: "rx \<Rightarrow> string \<Rightarrow> string ex" where
  "match_id_ex valid_url u = (case match_id valid_url u of None \<Rightarrow> raise AttributeError | Some i \<Rightarrow> ret i)"

section \<open>manoto.py\<close>

text \<open>
  \<^verbatim>\<open>ext\<close> is read in \<^verbatim>\<open>ManotoTVIE._real_extract\<close> but never assigned there, is no
  module-level name of manoto.py and no builtin: reading it raises \<^verbatim>\<open>NameError\<close>.
\<close>

definition ManotoTVIE_ext :: "string ex" where
  "ManotoTVIE_ext = raise (NameError ''ext'')"

definition isdigit_or_0 :: "py \<Rightarrow> py ex" where
  "isdigit_or_0 v = bnd (lift (isdigit v)) (\<lambda>d. ret (if \<not> d then PInt 0 else v))"

text \<open>\<^verbatim>\<open>int(v)\<close> of a value that is the integer 0 or a string of digits.\<close>

definition py_int :: "py \<Rightarrow> error + py" where
  "py_int v = (case v of
       PInt i \<Rightarrow> Inr (PInt i)
     | PBool b \<Rightarrow> Inr (PInt (if b then 1 else 0))
     | PFloat x \<Rightarrow> Inr (PInt (if x < 0 then - \<lfloor>- x\<rfloor> else \<lfloor>x\<rfloor>))
     | PStr s \<Rightarrow> (if s \<noteq> [] \<and> list_all is_digit s
                   then Inr (PInt (foldl (\<lambda>a c. 10 * a + (int (of_char c) - 48)) 0 s))
                   else Inl ValueError)
     | _ \<Rightarrow> Inl TypeError)"

definition manoto_api :: string where
  "manoto_api = ''https://dak1vd5vmi7x6.cloudfront.net/api/v1/publicrole/showmodule/episodedetails?id=''"

definition ManotoTVIE_real_extract :: "world \<Rightarrow> string \<Rightarrow> py ex" where
  "ManotoTVIE_real_extract w u =
    bnd (match_id_ex ManotoTVIE_VALID_URL u) (\<lambda>video_id.
    bnd (download_json w (manoto_api @ video_id)) (\<lambda>episode_json.
    bnd (lift (get_default episode_json ''details'' (PDict []))) (\<lambda>details.
    bnd (lift (get details ''showTitle'')) (\<lambda>series.
    bnd (lift (get details ''analyticsSeasonNumber'')) (\<lambda>season_number.
    bnd (isdigit_or_0 season_number) (\<lambda>season_number.
    bnd (lift (get details ''episodeNumber'')) (\<lambda>episode_number.
    bnd (isdigit_or_0 episode_number) (\<lambda>episode_number.
    bnd (lift (get details ''episodeTitle'')) (\<lambda>title.
    bnd (lift (get details ''analyticsEpisodeTitle'')) (\<lambda>episode_id.
    bnd (lift (get details ''episodeDescription'')) (\<lambda>description.
    bnd (lift (get details ''durationInMinutes'')) (\<lambda>minutes.
    bnd (lift (py_times minutes 60)) (\<lambda>duration.
    bnd (lift (get details ''viewCount'')) (\<lambda>view_count.
    bnd (lift (get details ''videoCategory'')) (\<lambda>category.
    bnd (lift (get details ''videoM3u8Url'')) (\<lambda>video_url.
    bnd (lift (get details ''episodelandscapeImgIxUrl'')) (\<lambda>thumbnail.
    bnd ManotoTVIE_ext (\<lambda>ext.
    bnd (extract_m3u8_formats w video_url) (\<lambda>formats.
    bnd (lift (py_int season_number)) (\<lambda>season_int.
    bnd (lift (py_int episode_number)) (\<lambda>episode_int.
    ret (PDict [
      (''id'', PStr video_id),
      (''series'', series),
      (''season_number'', season_int),
      (''episode_number'', episode_int),
      (''episode_id'', episode_id),
      (''duration'', duration),
      (''view_count'', view_count),
      (''categories'', PList [category]),
      (''title'', title),
      (''description'', description),
      (''thumbnail'', thumbnail),
      (''ext'', PStr ext),
      (''formats'', PList formats)]))))))))))))))))))))))"

text \<open>An upstream that answers every JSON request with the same document.\<close>

definition json_world :: "py \<Rightarrow> world" where
  "json_world j = \<lparr>json_reply = (\<lambda>n u. Inr j), page_reply = (\<lambda>n u. Inr []), m3u8_reply = (\<lambda>u. Inr ([], PDict [])),
     f4m_reply = (\<lambda>u. []), mpd_reply = (\<lambda>u. ([], PDict [])), ism_reply = (\<lambda>u. ([], PDict []))\<rparr>"

text \<open>Episode details as the fixture of \<^verbatim>\<open>ManotoTVIE\<close> describes them.\<close>

definition manoto_details :: "(string \<times> py) list" where
  "manoto_details =
    [(''analyticsSeasonNumber'', PStr ''''),
     (''episodeNumber'', PStr ''''),
     (''analyticsEpisodeTitle'', PStr ''Seh Mah Taatili''),
     (''durationInMinutes'', PInt 90),
     (''viewCount'', PInt 10550),
     (''videoM3u8Url'', PStr ''https://d2e40kvaojifd6.cloudfront.net/stream/seh_mah_taatili/playlist.m3u8'')]"

subsection \<open>Helpers of the framework's utility module\<close>

text \<open>
  The conversion helpers the extractors import from the framework's utility module are
  not under src/; the extractors are modelled over any implementation of them, and of two
  pieces of Python's own library: how an f-string renders a value, and the calendar date
  of a time stamp.
\<close>

record utils =
  int_or_none :: "py \<Rightarrow> py"
  float_or_none :: "py \<Rightarrow> nat \<Rightarrow> py"   \<comment> \<open>the value and the \<^verbatim>\<open>scale\<close>\<close>
  str_or_none :: "py \<Rightarrow> py"
  url_or_none :: "py \<Rightarrow> py"
  unified_timestamp :: "py \<Rightarrow> py"
  parse_duration :: "py \<Rightarrow> py"
  parse_iso8601 :: "py \<Rightarrow> py"
  merge_subtitles :: "py \<Rightarrow> py \<Rightarrow> py"
  sort_formats :: "py list \<Rightarrow> py list"
  str_of :: "py \<Rightarrow> string"            \<comment> \<open>\<^verbatim>\<open>f'{v}'\<close>\<close>
  gmtime_date :: "py \<Rightarrow> error + py"    \<comment> \<open>\<^verbatim>\<open>strftime('%Y%m%d', gmtime(t))\<close>\<close>

text \<open>
  Modelled from the spec: \<^verbatim>\<open>_download_json\<close> with \<^verbatim>\<open>fatal=False\<close> (base class, not under
  src/): a failed download does not propagate; the helper answers \<^verbatim>\<open>False\<close>.
\<close>

definition download_json_nonfatal :: "'a world_scheme \<Rightarrow> string \<Rightarrow> py ex" where
  "download_json_nonfatal w u =
     (\<lambda>tr. (case json_reply w (requests tr) u of Inl e \<Rightarrow> Inr (PBool False) | Inr j \<Rightarrow> Inr j,
            tr @ [Request u]))"

text \<open>
  Modelled from the spec: \<^verbatim>\<open>traverse_obj\<close> (utility module, not under src/), "traverse
  the response structure by fixed key paths": each key is looked up in a dictionary;
  anything else on the way, or a missing key, gives \<^verbatim>\<open>None\<close>.
\<close>

fun traverse_obj :: "py \<Rightarrow> string list \<Rightarrow> py" where
  "traverse_obj v [] = v"
| "traverse_obj (PDict kvs) (k # ks) = (case map_of kvs k of None \<Rightarrow> PNone | Some v \<Rightarrow> traverse_obj v ks)"
| "traverse_obj _ (k # ks) = PNone"

text \<open>
  Modelled from the spec: \<^verbatim>\<open>_search_regex(pattern, string, name, default=None)\<close> (base
  class, not under src/): the first group of the leftmost match, the default \<^verbatim>\<open>None\<close>
  when the pattern is not found or the text is \<^verbatim>\<open>None\<close>. Python's \<^verbatim>\<open>re.search\<close> raises on
  anything that is not text.
\<close>

definition search_regex_default :: "rx \<Rightarrow> py \<Rightarrow> error + py" where
  "search_regex_default r v = (case v of
       PNone \<Rightarrow> Inr PNone
     | PStr s \<Rightarrow> Inr (case re_search r s of None \<Rightarrow> PNone
                      | Some c \<Rightarrow> (case re_group c ''1'' of None \<Rightarrow> PNone | Some g \<Rightarrow> PStr g))
     | _ \<Rightarrow> Inl TypeError)"

text \<open>\<^verbatim>\<open>a or b\<close>.\<close>

definition py_or :: "py \<Rightarrow> py \<Rightarrow> py" where
  "py_or a b = (if truthy a then a else b)"

text \<open>What a \<^verbatim>\<open>for\<close> loop iterates over: the items of a list, the characters of a string, the keys of a dictionary.\<close>

definition py_iter :: "py \<Rightarrow> error + py list" where
  "py_iter v = (case v of
       PList xs \<Rightarrow> Inr xs
     | PStr s \<Rightarrow> Inr (map (\<lambda>c. PStr [c]) s)
     | PDict kvs \<Rightarrow> Inr (map PStr (remdups (map fst kvs)))
     | _ \<Rightarrow> Inl TypeError)"

fun for_each :: "'a list \<Rightarrow> ('a \<Rightarrow> unit ex) \<Rightarrow> unit ex" where
  "for_each [] body = ret ()"
| "for_each (x # xs) body = bnd (body x) (\<lambda>_. for_each xs body)"

section \<open>servus.py\<close>

text \<open>
  servus.py imports \<^verbatim>\<open>traverse_obj\<close>, \<^verbatim>\<open>float_or_none\<close>, \<^verbatim>\<open>int_or_none\<close> and
  \<^verbatim>\<open>unified_timestamp\<close> only: the name \<^verbatim>\<open>ExtractorError\<close> that \<^verbatim>\<open>_report_errors\<close> calls is not
  bound in the module, so reaching that call raises \<^verbatim>\<open>NameError\<close>.
\<close>

definition ServusIE_report_errors :: "py \<Rightarrow> unit ex" where
  "ServusIE_report_errors video =
    bnd (lift (contains ''playabilityErrors'' video)) (\<lambda>has_errors.
    bnd (if \<not> has_errors
         then report_warning [PStr ''No videoUrl, and also no information about errors'']
         else ret ()) (\<lambda>_.
    bnd (lift (get video ''playabilityErrors'')) (\<lambda>errors.
    bnd (lift (py_iter errors)) (\<lambda>errs.
    for_each errs (\<lambda>error.
      if error = PStr ''FSK_BLOCKED'' then
        bnd (lift (item video ''playabilityErrorDetails'')) (\<lambda>all_details.
        bnd (lift (item all_details ''FSK_BLOCKED'')) (\<lambda>details.
        bnd (lift (contains ''minEveningHour'' details)) (\<lambda>has_hour.
        if has_hour then raise (NameError ''ExtractorError'') else ret ())))
      else if error = PStr ''NOT_YET_AVAILABLE'' then
        bnd (lift (get video ''currentSunrise'')) (\<lambda>sunrise.
        bnd (lift (str_plus ''Only available after '' sunrise)) (\<lambda>msg.
        report_warning [PStr msg]))
      else report_warning [PStr ''Not playable: '', error])))))"

definition ServusIE_get_description :: "world \<Rightarrow> string \<Rightarrow> py ex" where
  "ServusIE_get_description w video_id =
    bnd (download_json_nonfatal w
          (''https://backend.servustv.com/wp-json/rbmh/v2/media_asset/aa_id/'' @ video_id @ ''?fieldset=page'')) (\<lambda>info.
    ret (case traverse_obj info [''stv_long_description''] of
           PNone \<Rightarrow> traverse_obj info [''stv_short_description'']
         | d \<Rightarrow> d))"

definition Season_rx :: rx where
  "Season_rx = Seq (Str ''Season '') (Group ''1'' (Plus Digit))"

definition Episode_rx :: rx where
  "Episode_rx = Seq (Str ''Episode '') (Group ''1'' (Plus Digit))"

definition ServusIE_real_extract :: "utils \<Rightarrow> world \<Rightarrow> string \<Rightarrow> py ex" where
  "ServusIE_real_extract U w u =
    bnd (match_id_ex ServusIE_VALID_URL u) (\<lambda>matched.
    bnd (ret (upper matched)) (\<lambda>video_id.
    bnd (download_json w (''https://api-player.redbull.com/stv/servus-tv?timeZone=Europe/Berlin&videoId='' @ video_id)) (\<lambda>video.
    bnd (lift (contains ''videoUrl'' video)) (\<lambda>has_url.
    bnd (if \<not> has_url then ServusIE_report_errors video else ret ()) (\<lambda>_.
    bnd (lift (item video ''videoUrl'')) (\<lambda>video_url.
    bnd (extract_m3u8_formats_and_subtitles w video_url) (\<lambda>(formats, subtitles).
    bnd (lift (get video ''season'')) (\<lambda>season.
    bnd (lift (search_regex_default Season_rx (py_or season (PStr '''')))) (\<lambda>season_match.
    bnd (ret (int_or_none U season_match)) (\<lambda>season_number.
    bnd (lift (get video ''chapter'')) (\<lambda>episode.
    bnd (lift (search_regex_default Episode_rx (py_or episode (PStr '''')))) (\<lambda>episode_match.
    bnd (ret (int_or_none U episode_match)) (\<lambda>episode_number.
    bnd (lift (get video ''title'')) (\<lambda>title.
    bnd (ServusIE_get_description w video_id) (\<lambda>long_description.
    bnd (lift (get video ''description'')) (\<lambda>description.
    bnd (lift (get video ''poster'')) (\<lambda>poster.
    bnd (lift (get video ''duration'')) (\<lambda>duration.
    bnd (lift (get video ''currentSunrise'')) (\<lambda>sunrise.
    ret (PDict [
      (''id'', PStr video_id),
      (''title'', title),
      (''description'', py_or long_description description),
      (''thumbnail'', poster),
      (''duration'', float_or_none U duration 1),
      (''timestamp'', unified_timestamp U sunrise),
      (''series'', season),
      (''season'', season),
      (''season_number'', season_number),
      (''episode'', episode),
      (''episode_number'', episode_number),
      (''formats'', PList formats),
      (''subtitles'', subtitles)]))))))))))))))))))))"

text \<open>
  A stand-in for the utility module, for running the extractors on concrete inputs: the
  numeric helpers convert what they can, the date parsers answer \<^verbatim>\<open>None\<close>, every date
  is the first of January 1970.
\<close>

definition test_utils :: utils where
  "test_utils = \<lparr>
     int_or_none = (\<lambda>v. case py_int v of Inr i \<Rightarrow> i | Inl e \<Rightarrow> PNone),
     float_or_none = (\<lambda>v scale. case v of PInt i \<Rightarrow> PFloat (of_int i / of_nat scale)
                                   | PFloat x \<Rightarrow> PFloat (x / of_nat scale) | _ \<Rightarrow> PNone),
     str_or_none = (\<lambda>v. case v of PStr s \<Rightarrow> PStr s | _ \<Rightarrow> PNone),
     url_or_none = (\<lambda>v. case v of PStr s \<Rightarrow> PStr s | _ \<Rightarrow> PNone),
     unified_timestamp = (\<lambda>v. PNone),
     parse_duration = (\<lambda>v. PNone),
     parse_iso8601 = (\<lambda>v. PNone),
     merge_subtitles = (\<lambda>a b. b),
     sort_formats = (\<lambda>formats. formats),
     str_of = (\<lambda>v. case v of PStr s \<Rightarrow> s | _ \<Rightarrow> ''None''),
     gmtime_date = (\<lambda>v. Inr (PStr ''19700101''))\<rparr>"

text \<open>A video that is not published yet, and the video of the fixture.\<close>

definition servus_not_yet :: py where
  "servus_not_yet = PDict [(''playabilityErrors'', PList [PStr ''NOT_YET_AVAILABLE'']),
                           (''currentSunrise'', PStr ''2030-01-01T20:15:00Z'')]"



section \<open>vrt.py\<close>

subsection \<open>Logging in\<close>

text \<open>
  What the login flow sees of the world besides replies to requests: the answer of the
  Gigya login (\<^verbatim>\<open>_gigya_login\<close> of the base class \<^verbatim>\<open>GigyaBaseIE\<close>, not under src/) and the
  cookie jar after the \<open>n\<close>-th request.
\<close>

record login_world = world +
  gigya_reply :: "string \<Rightarrow> string \<Rightarrow> error + py"
  cookie_value :: "nat \<Rightarrow> string \<Rightarrow> string \<Rightarrow> string option"

definition gigya_login :: "'a login_world_scheme \<Rightarrow> string \<Rightarrow> string \<Rightarrow> py ex" where
  "gigya_login w username password =
     (\<lambda>tr. (gigya_reply w username password, tr @ [Request ''https://accounts.eu1.gigya.com/accounts.login'']))"

text \<open>\<^verbatim>\<open>_request_webpage\<close>: the request is sent; the body of the answer is not read.\<close>

definition request_webpage :: "'a world_scheme \<Rightarrow> string \<Rightarrow> unit ex" where
  "request_webpage w u = (\<lambda>tr. (map_sum id (\<lambda>page. ()) (page_reply w (requests tr) u), tr @ [Request u]))"

definition get_cookie :: "'a login_world_scheme \<Rightarrow> string \<Rightarrow> string \<Rightarrow> string option ex" where
  "get_cookie w u name = (\<lambda>tr. (Inr (cookie_value w (requests tr) u name), tr))"

definition sleep :: "nat \<Rightarrow> unit ex" where
  "sleep seconds = emit (Sleep seconds)"

text \<open>\<^verbatim>\<open>try: m except ... as e: h e\<close>, for a handler that decides itself what to re-raise.\<close>

definition catch :: "'a ex \<Rightarrow> (error \<Rightarrow> 'a ex) \<Rightarrow> 'a ex" where
  "catch m h = (\<lambda>tr. case m tr of (Inl e, tr') \<Rightarrow> h e tr' | (Inr x, tr') \<Rightarrow> (Inr x, tr'))"

text \<open>
  \<^verbatim>\<open>except ExtractorError as e: if isinstance(e.cause, compat_HTTPError) and e.cause.code == 401\<close>:
  the errors the handler of the login loop retries on. Every other error leaves the loop,
  re-raised by the handler or not caught at all.
\<close>

definition is_http_401 :: "error \<Rightarrow> bool" where
  "is_http_401 e = (case e of ExtractorError msg expected (Some (HTTPError code)) \<Rightarrow> code = 401 | _ \<Rightarrow> False)"

definition vrtnuinitlogin :: string where
  "vrtnuinitlogin = ''https://token.vrt.be/vrtnuinitlogin''"

definition perform_login_url :: string where
  "perform_login_url = ''https://login.vrt.be/perform_login''"

text \<open>The body of the \<^verbatim>\<open>try\<close>: one login attempt.\<close>

definition VRTIE_login_attempt :: "'a login_world_scheme \<Rightarrow> py \<Rightarrow> unit ex" where
  "VRTIE_login_attempt w auth_info =
    bnd (request_webpage w vrtnuinitlogin) (\<lambda>_.
    bnd (lift (item auth_info ''UID'')) (\<lambda>uid.
    bnd (lift (item auth_info ''UIDSignature'')) (\<lambda>uid_signature.
    bnd (lift (item auth_info ''signatureTimestamp'')) (\<lambda>signature_timestamp.
    bnd (get_cookie w ''https://login.vrt.be'' ''OIDCXSRF'') (\<lambda>cookie.
    bnd (case cookie of None \<Rightarrow> raise AttributeError | Some v \<Rightarrow> ret v) (\<lambda>csrf.
    request_webpage w perform_login_url))))))"

function VRTIE_login_loop :: "'a login_world_scheme \<Rightarrow> py \<Rightarrow> nat \<Rightarrow> unit ex" where
  "VRTIE_login_loop w auth_info login_attempt =
    (if login_attempt \<le> 3 then
       catch (VRTIE_login_attempt w auth_info) (\<lambda>e.
         if is_http_401 e then
           bnd (report_warning [PStr ''Authentication failed'']) (\<lambda>_.
           bnd (sleep 1) (\<lambda>_.
           VRTIE_login_loop w auth_info (login_attempt + 1)))
         else raise e)
     else ret ())"
  by pat_completeness auto
termination
  by (relation "measure (\<lambda>(w, auth_info, login_attempt). 4 - login_attempt)") auto

text \<open>
  \<^verbatim>\<open>_perform_login\<close>. The instance attribute \<^verbatim>\<open>_authenticated\<close> starts as \<^verbatim>\<open>False\<close>; the
  value returned is what the method leaves in it.
\<close>

definition VRTIE_perform_login :: "'a login_world_scheme \<Rightarrow> string \<Rightarrow> string \<Rightarrow> bool ex" where
  "VRTIE_perform_login w username password =
    bnd (gigya_login w username password) (\<lambda>auth_info.
    bnd (lift (get auth_info ''errorDetails'')) (\<lambda>error_details.
    bnd (if truthy error_details
         then bnd (lift (str_plus ''Unable to login: VrtNU said: '' error_details)) (\<lambda>msg.
              raise (ExtractorError (PStr msg) True None))
         else ret ()) (\<lambda>_.
    bnd (VRTIE_login_loop w auth_info 1) (\<lambda>_.
    ret True))))"

text \<open>How many login POSTs a log holds.\<close>

definition login_posts :: "event list \<Rightarrow> nat" where
  "login_posts tr = length (filter (\<lambda>e. e = Request perform_login_url) tr)"

text \<open>
  Upstreams for the login flow: the Gigya login succeeds, the XSRF cookie is set, and the
  login POST is answered by \<open>post\<close>, given the number of requests made before it.
\<close>

definition vrt_auth_info :: py where
  "vrt_auth_info = PDict [(''UID'', PStr ''uid''), (''UIDSignature'', PStr ''sig''),
                          (''signatureTimestamp'', PStr ''1673905125''), (''statusCode'', PInt 200)]"

definition vrt_login_world :: "(nat \<Rightarrow> error + string) \<Rightarrow> login_world" where
  "vrt_login_world post = \<lparr>
     json_reply = (\<lambda>n u. Inr (PDict [])),
     page_reply = (\<lambda>n u. if u = perform_login_url then post n else Inr []),
     m3u8_reply = (\<lambda>u. Inr ([], PDict [])),
     f4m_reply = (\<lambda>u. []), mpd_reply = (\<lambda>u. ([], PDict [])), ism_reply = (\<lambda>u. ([], PDict [])),
     gigya_reply = (\<lambda>username password. Inr vrt_auth_info),
     cookie_value = (\<lambda>n u name. Some ''xsrf'')\<rparr>"

definition http_error :: "nat \<Rightarrow> error" where
  "http_error code = ExtractorError (PStr ''perform login failed'') False (Some (HTTPError code))"

definition gigya_request :: event where
  "gigya_request = Request ''https://accounts.eu1.gigya.com/accounts.login''"

definition failed_attempt :: "event list" where
  "failed_attempt = [Request vrtnuinitlogin, Request perform_login_url,
                     Warning [PStr ''Authentication failed''], Sleep 1]"

definition vrt_login_world_401_once :: login_world where
  "vrt_login_world_401_once = vrt_login_world (\<lambda>n. if n = 2 then Inl (http_error 401) else Inr [])"

definition vrt_login_world_401 :: login_world where
  "vrt_login_world_401 = vrt_login_world (\<lambda>n. Inl (http_error 401))"

definition vrt_login_world_500 :: login_world where
  "vrt_login_world_500 = vrt_login_world (\<lambda>n. Inl (http_error 500))"

subsection \<open>Extracting\<close>

text \<open>
  Modelled from the spec: \<^verbatim>\<open>raise_geo_restricted\<close> and \<^verbatim>\<open>raise_login_required\<close> of the base
  class are not under src/. Geo-restriction is "mapped to a dedicated signal carrying
  allowed countries"; login-required is an expected failure with a signal of its own.
\<close>

definition raise_geo_restricted :: "string list \<Rightarrow> 'a ex" where
  "raise_geo_restricted countries = raise (GeoRestrictedError countries)"

definition raise_login_required :: "'a ex" where
  "raise_login_required = raise LoginRequiredError"

text \<open>\<^verbatim>\<open>url.strip("/")\<close>.\<close>

definition strip_slashes :: "string \<Rightarrow> string" where
  "strip_slashes s = rev (dropWhile (\<lambda>c. c = CHR ''/'') (rev (dropWhile (\<lambda>c. c = CHR ''/'') s)))"

definition REST_API_BASE_TOKEN :: string where
  "REST_API_BASE_TOKEN = ''https://media-services-public.vrt.be/vualto-video-aggregator-web/rest/external/v2''"

definition REST_API_BASE_VIDEO :: string where
  "REST_API_BASE_VIDEO = ''https://media-services-public.vrt.be/media-aggregator/v2''"

text \<open>The keys of \<^verbatim>\<open>_HLS_ENTRY_PROTOCOLS_MAP\<close>.\<close>

definition HLS_ENTRY_PROTOCOLS :: "string list" where
  "HLS_ENTRY_PROTOCOLS = [''HLS'', ''HLS_AES'']"

text \<open>
  Lines 147 to 153 of \<^verbatim>\<open>_real_extract\<close>: a media item without a title is an error of the
  upstream, mapped by its code.
\<close>

definition VRTIE_check_video_info :: "py \<Rightarrow> unit ex" where
  "VRTIE_check_video_info video_info =
    bnd (lift (contains ''title'' video_info)) (\<lambda>has_title.
    if \<not> has_title then
      bnd (lift (get video_info ''code'')) (\<lambda>code.
      bnd (if code = PStr ''AUTHENTICATION_REQUIRED'' then raise_login_required
           else if code = PStr ''INVALID_LOCATION'' then raise_geo_restricted [''BE'']
           else ret ()) (\<lambda>_.
      bnd (lift (get video_info ''message'')) (\<lambda>message.
      raise (ExtractorError (py_or message code) True None))))
    else ret ())"

text \<open>\<^verbatim>\<open>v.upper()\<close>: a method of strings.\<close>

definition py_upper :: "py \<Rightarrow> error + string" where
  "py_upper v = (case v of PStr s \<Rightarrow> Inr (upper s) | _ \<Rightarrow> Inl AttributeError)"

text \<open>One round of the loop over \<^verbatim>\<open>targetUrls\<close>, on the formats and subtitles found so far.\<close>

definition VRTIE_target :: "utils \<Rightarrow> 'a world_scheme \<Rightarrow> py \<Rightarrow> py list \<times> py \<Rightarrow> (py list \<times> py) ex" where
  "VRTIE_target U w target = (\<lambda>(formats, subtitles).
    bnd (lift (get target ''url'')) (\<lambda>target_url.
    bnd (lift (get target ''type'')) (\<lambda>target_type.
    bnd (ret (url_or_none U target_url)) (\<lambda>format_url.
    bnd (ret (str_or_none U target_type)) (\<lambda>format_type.
    if \<not> truthy format_url \<or> \<not> truthy format_type then ret (formats, subtitles)
    else
      bnd (lift (py_upper format_type)) (\<lambda>format_type.
      if format_type \<in> set HLS_ENTRY_PROTOCOLS then
        (case (case m3u8_reply w format_url of Inl e \<Rightarrow> ([], PDict []) | Inr r \<Rightarrow> r) of (fmts, subs) \<Rightarrow>
           ret (formats @ fmts, merge_subtitles U subtitles subs))
      else if format_type = ''HDS'' then
        ret (formats @ f4m_reply w format_url, subtitles)
      else if format_type = ''MPEG_DASH'' then
        (case mpd_reply w format_url of (fmts, subs) \<Rightarrow>
           ret (formats @ fmts, merge_subtitles U subtitles subs))
      else if format_type = ''HSS'' then
        (case ism_reply w format_url of (fmts, subs) \<Rightarrow>
           ret (formats @ fmts, merge_subtitles U subtitles subs))
      else
        ret (formats @ [PDict [(''format_id'', PStr format_type), (''url'', format_url)]], subtitles)))))))"

fun VRTIE_targets :: "utils \<Rightarrow> 'a world_scheme \<Rightarrow> py list \<Rightarrow> py list \<times> py \<Rightarrow> (py list \<times> py) ex" where
  "VRTIE_targets U w [] acc = ret acc"
| "VRTIE_targets U w (target # targets) acc = bnd (VRTIE_target U w target acc) (VRTIE_targets U w targets)"

text \<open>\<^verbatim>\<open>d.setdefault(k, []).append(v)\<close>.\<close>

definition setdefault_append :: "py \<Rightarrow> string \<Rightarrow> py \<Rightarrow> error + py" where
  "setdefault_append d k v = (case d of
       PDict kvs \<Rightarrow> (case map_of kvs k of
           None \<Rightarrow> Inr (PDict (kvs @ [(k, PList [v])]))
         | Some (PList xs) \<Rightarrow> Inr (PDict (map (\<lambda>(k', x). if k' = k then (k', PList (xs @ [v])) else (k', x)) kvs))
         | Some _ \<Rightarrow> Inl AttributeError)
     | _ \<Rightarrow> Inl AttributeError)"

fun VRTIE_subtitle_urls :: "py list \<Rightarrow> py \<Rightarrow> py ex" where
  "VRTIE_subtitle_urls [] subtitles = ret subtitles"
| "VRTIE_subtitle_urls (subtitle # rest) subtitles =
    bnd (lift (get subtitle ''url'')) (\<lambda>subtitle_url.
    bnd (if truthy subtitle_url
         then bnd (lift (get subtitle ''type'')) (\<lambda>subtitle_type.
              if subtitle_type = PStr ''CLOSED''
              then lift (setdefault_append subtitles ''nl'' (PDict [(''url'', subtitle_url)]))
              else ret subtitles)
         else ret subtitles)
        (VRTIE_subtitle_urls rest))"

text \<open>
  \<^verbatim>\<open>_real_extract\<close>; \<open>authenticated\<close> is the instance attribute \<^verbatim>\<open>_authenticated\<close>.
\<close>

definition VRTIE_real_extract :: "utils \<Rightarrow> 'a world_scheme \<Rightarrow> bool \<Rightarrow> string \<Rightarrow> py ex" where
  "VRTIE_real_extract U w authenticated u =
    bnd (match_id_ex VRTIE_VALID_URL u) (\<lambda>display_id.
    bnd (download_json w (strip_slashes u @ ''.model.json'')) (\<lambda>model_json.
    bnd (lift (get model_json ''details'')) (\<lambda>details.
    bnd (lift (get details ''actions'')) (\<lambda>actions.
    bnd (lift (get details ''title'')) (\<lambda>title.
    bnd (lift (index actions 2)) (\<lambda>action.
    bnd (lift (get action ''episodePublicationId'')) (\<lambda>episode_publication_id.
    bnd (lift (get action ''episodeVideoId'')) (\<lambda>episode_video_id.
    bnd (ret (str_of U episode_publication_id @ ''$'' @ str_of U episode_video_id)) (\<lambda>video_id.
    bnd (lift (get details ''description'')) (\<lambda>description.
    bnd (lift (get details ''data'')) (\<lambda>data.
    bnd (lift (get data ''episode'')) (\<lambda>episode.
    bnd (lift (get episode ''name'')) (\<lambda>display_id.
    bnd (lift (get episode ''onTime'')) (\<lambda>on_time.
    bnd (lift (get on_time ''raw'')) (\<lambda>on_time_raw.
    bnd (ret (parse_iso8601 U on_time_raw)) (\<lambda>timestamp.
    bnd (lift (gmtime_date U timestamp)) (\<lambda>upload_date.
    bnd (lift (get details ''data'')) (\<lambda>series_info.
    bnd (lift (get series_info ''program'')) (\<lambda>program.
    bnd (lift (get program ''title'')) (\<lambda>series.
    bnd (lift (get series_info ''season'')) (\<lambda>season_info.
    bnd (lift (get season_info ''title'')) (\<lambda>season_title.
    bnd (lift (get season_title ''value'')) (\<lambda>season.
    bnd (lift (get season_title ''raw'')) (\<lambda>season_number.
    bnd (lift (get season_info ''id'')) (\<lambda>season_id.
    bnd (lift (get series_info ''episode'')) (\<lambda>episode_info.
    bnd (lift (get episode_info ''number'')) (\<lambda>number.
    bnd (lift (get number ''value'')) (\<lambda>episode.
    bnd (lift (get number ''raw'')) (\<lambda>episode_number.
    bnd (lift (get episode_info ''id'')) (\<lambda>episode_id.
    bnd (if authenticated
         then bnd (download_json w ''https://token.vrt.be/refreshtoken'') (\<lambda>token_json.
              lift (item token_json ''vrtnutoken''))
         else ret (PStr '''')) (\<lambda>vrtnutoken.
    bnd (download_json w (REST_API_BASE_TOKEN @ ''/tokens'')) (\<lambda>player_token_json.
    bnd (lift (item player_token_json ''vrtPlayerToken'')) (\<lambda>vrtPlayerToken.
    bnd (download_json w (REST_API_BASE_VIDEO @ ''/media-items/'' @ video_id)) (\<lambda>video_info.
    bnd (VRTIE_check_video_info video_info) (\<lambda>_.
    bnd (lift (item video_info ''targetUrls'')) (\<lambda>target_urls.
    bnd (lift (py_iter target_urls)) (\<lambda>targets.
    bnd (VRTIE_targets U w targets ([], PDict [])) (\<lambda>(formats, subtitles).
    bnd (lift (get video_info ''subtitleUrls'')) (\<lambda>subtitle_urls.
    bnd (case subtitle_urls of PList subs \<Rightarrow> VRTIE_subtitle_urls subs subtitles | _ \<Rightarrow> ret subtitles) (\<lambda>subtitles.
    bnd (lift (get video_info ''duration'')) (\<lambda>duration.
    bnd (lift (get video_info ''posterImageUrl'')) (\<lambda>poster.
    ret (PDict [
      (''id'', PStr video_id),
      (''display_id'', display_id),
      (''timestamp'', timestamp),
      (''release_timestamp'', timestamp),
      (''upload_date'', upload_date),
      (''release_date'', upload_date),
      (''title'', title),
      (''description'', description),
      (''series'', series),
      (''season'', season),
      (''season_number'', int_or_none U season_number),
      (''season_id'', season_id),
      (''episode'', episode),
      (''episode_number'', episode_number),
      (''episode_id'', episode_id),
      (''channel'', PStr ''VRT''),
      (''formats'', PList formats),
      (''duration'', float_or_none U duration 1000),
      (''thumbnail'', poster),
      (''subtitles'', subtitles)])))))))))))))))))))))))))))))))))))))))))))"

text \<open>
  Upstreams for \<^verbatim>\<open>VRTIE._real_extract\<close>: the page model of the fixture's episode, and a
  media-items service that answers every video with \<open>video_info\<close>.
\<close>

definition vrt_url :: string where
  "vrt_url = ''https://www.vrt.be/vrtnu/a-z/de-ideale-wereld/2023-vj/de-ideale-wereld-d20230116/''"

definition vrt_model_json :: py where
  "vrt_model_json = PDict [(''details'', PDict [
     (''title'', PStr ''Tom Waes''),
     (''actions'', PList [PDict [], PDict [],
        PDict [(''episodePublicationId'', PStr ''pbs-pub-855b00a8-6ce2-4032-ac4f-1fcf3ae78524''),
               (''episodeVideoId'', PStr ''vid-d2243aa1-ec46-4e34-a55b-92568459906f'')]]),
     (''data'', PDict [
        (''program'', PDict [(''title'', PStr ''De ideale wereld'')]),
        (''season'', PDict [(''id'', PStr ''1672830988794''),
                            (''title'', PDict [(''value'', PStr ''2023''), (''raw'', PStr ''2023'')])]),
        (''episode'', PDict [(''id'', PStr ''1672830988861''), (''name'', PStr ''de-ideale-wereld-d20230116''),
                             (''onTime'', PDict [(''raw'', PStr ''2023-01-16T22:38:45+01:00'')]),
                             (''number'', PDict [(''value'', PStr ''Aflevering 1''), (''raw'', PInt 1)])])])])]"

definition vrt_world :: "py \<Rightarrow> py \<Rightarrow> world" where
  "vrt_world model_json video_info = \<lparr>
     json_reply = (\<lambda>n u. if n = 0 then Inr model_json
                         else if u = REST_API_BASE_TOKEN @ ''/tokens'' then Inr (PDict [(''vrtPlayerToken'', PStr ''token'')])
                         else Inr video_info),
     page_reply = (\<lambda>n u. Inr []),
     m3u8_reply = (\<lambda>u. Inr ([], PDict [])),
     f4m_reply = (\<lambda>u. []), mpd_reply = (\<lambda>u. ([], PDict [])), ism_reply = (\<lambda>u. ([], PDict []))\<rparr>"

definition vrt_invalid_location :: py where
  "vrt_invalid_location = PDict [(''code'', PStr ''INVALID_LOCATION''),
                                 (''message'', PStr ''The content is not available in your location.'')]"

definition vrt_authentication_required :: py where
  "vrt_authentication_required = PDict [(''code'', PStr ''AUTHENTICATION_REQUIRED''),
                                        (''message'', PStr ''Please log in.'')]"

definition vrt_incomplete :: py where
  "vrt_incomplete = PDict [(''code'', PStr ''INCOMPLETE_ROAMING_CONFIG''),
                           (''message'', PStr ''The roaming configuration is incomplete.'')]"

text \<open>The episode details of the Manoto fixture without their season number.\<close>

definition manoto_details_no_season :: "(string \<times> py) list" where
  "manoto_details_no_season = filter (\<lambda>(k, v). k \<noteq> ''analyticsSeasonNumber'') manoto_details"

text \<open>The three requests \<^verbatim>\<open>VRTIE._real_extract\<close> has made when it inspects the media item of the fixture.\<close>

definition vrt_requests :: "event list" where
  "vrt_requests =
     [Request (strip_slashes vrt_url @ ''.model.json''),
      Request (REST_API_BASE_TOKEN @ ''/tokens''),
      Request (REST_API_BASE_VIDEO @ ''/media-items/pbs-pub-855b00a8-6ce2-4032-ac4f-1fcf3ae78524$vid-d2243aa1-ec46-4e34-a55b-92568459906f'')]"

section \<open>kanal2.py\<close>

text \<open>
  \<^verbatim>\<open>SUBTITLE_DATE_RE\<close>: a date and a time in parentheses at the end of the subtitle.
\<close>

definition SUBTITLE_DATE_RE :: rx where
  "SUBTITLE_DATE_RE = seqs [Str ''('',
     Group ''1'' (seqs [Rep 2 Digit, Str ''.'', Rep 2 Digit, Str ''.'', Rep 4 Digit, Space,
                        Rep 2 Digit, Str '':'', Rep 2 Digit]),
     Str '')'', Eol]"

subsection \<open>Dates and the host's clock\<close>

record datetime =
  year :: int
  month :: int
  day :: int
  hour :: int
  minute :: int

record timedelta =
  days :: int
  seconds :: int
  microseconds :: int

text \<open>
  What \<^verbatim>\<open>get_timestamp\<close> takes from the machine it runs on: the offset from UTC, in
  seconds, that the local time zone gives a local date and time (this is what
  \<^verbatim>\<open>time.mktime\<close> applies), and the \<^verbatim>\<open>pytz\<close> package, if it is installed, as what
  \<^verbatim>\<open>pytz.timezone('Europe/Tallinn').utcoffset\<close> answers.
\<close>

record host =
  local_utcoffset :: "datetime \<Rightarrow> int"
  pytz_tallinn_utcoffset :: "(datetime \<Rightarrow> error + timedelta) option"

definition digits_value :: "string \<Rightarrow> int" where
  "digits_value s = foldl (\<lambda>a c. 10 * a + (int (of_char c) - 48)) 0 s"

definition is_leap :: "int \<Rightarrow> bool" where
  "is_leap y = (y mod 4 = 0 \<and> (y mod 100 \<noteq> 0 \<or> y mod 400 = 0))"

definition days_in_month :: "int \<Rightarrow> int \<Rightarrow> int" where
  "days_in_month y m = (if m = 2 then (if is_leap y then 29 else 28)
                        else if m \<in> {4, 6, 9, 11} then 30 else 31)"

text \<open>
  \<^verbatim>\<open>datetime.strptime(s, '%d.%m.%Y %H:%M')\<close> on a text of the shape the pattern captured:
  two, two and four digits, white space, two and two digits. Python raises \<^verbatim>\<open>ValueError\<close>
  for a field out of range and for a date that does not exist.
\<close>

definition strptime :: "string \<Rightarrow> error + datetime" where
  "strptime s =
    (if length s = 16 \<and> list_all is_digit (take 2 s @ take 2 (drop 3 s) @ take 4 (drop 6 s) @
                                           take 2 (drop 11 s) @ take 2 (drop 14 s))
        \<and> s ! 2 = CHR ''.'' \<and> s ! 5 = CHR ''.'' \<and> is_space (s ! 10) \<and> s ! 13 = CHR '':''
     then
       (let d = digits_value (take 2 s); m = digits_value (take 2 (drop 3 s));
            y = digits_value (take 4 (drop 6 s));
            H = digits_value (take 2 (drop 11 s)); M = digits_value (take 2 (drop 14 s))
        in if 1 \<le> m \<and> m \<le> 12 \<and> 1 \<le> y \<and> 1 \<le> d \<and> d \<le> days_in_month y m \<and> H \<le> 23 \<and> M \<le> 59
           then Inr \<lparr>year = y, month = m, day = d, hour = H, minute = M\<rparr>
           else Inl ValueError)
     else Inl ValueError)"

text \<open>Days from 1970-01-01 to a date of the Gregorian calendar.\<close>

definition days_from_civil :: "int \<Rightarrow> int \<Rightarrow> int \<Rightarrow> int" where
  "days_from_civil y m d =
    (let y' = (if m \<le> 2 then y - 1 else y);
         era = y' div 400;
         yoe = y' - era * 400;
         doy = (153 * (if m > 2 then m - 3 else m + 9) + 2) div 5 + d - 1;
         doe = yoe * 365 + yoe div 4 - yoe div 100 + doy
     in era * 146097 + doe - 719468)"

text \<open>The seconds since the epoch of a date and time read as UTC.\<close>

definition timegm :: "datetime \<Rightarrow> int" where
  "timegm t = days_from_civil (year t) (month t) (day t) * 86400 + hour t * 3600 + minute t * 60"

text \<open>
  \<^verbatim>\<open>time.mktime(date.timetuple())\<close>: the date and time are read in the local time zone of
  the host (within the range the platform's \<^verbatim>\<open>time_t\<close> covers).
\<close>

definition mktime :: "host \<Rightarrow> datetime \<Rightarrow> int" where
  "mktime h t = timegm t - local_utcoffset h t"

subsection \<open>The extractor\<close>

definition Kanal2IE_get_timestamp :: "host \<Rightarrow> py \<Rightarrow> py ex" where
  "Kanal2IE_get_timestamp h subtitle =
    (if \<not> truthy subtitle then ret PNone
     else
       bnd (lift (search_regex_default SUBTITLE_DATE_RE subtitle)) (\<lambda>matched.
       case matched of
         PStr m \<Rightarrow>
           (if m = [] then ret PNone
            else
              bnd (lift (strptime m)) (\<lambda>date.
              bnd (ret (mktime h date)) (\<lambda>unixtime.
              bnd (case pytz_tallinn_utcoffset h of
                     None \<Rightarrow> ret unixtime
                   | Some utcoffset \<Rightarrow>
                       bnd (lift (utcoffset date)) (\<lambda>offset.
                       ret (unixtime + microseconds offset))) (\<lambda>unixtime.
              ret (PFloat (of_int unixtime))))))
       | _ \<Rightarrow> ret PNone))"

definition Kanal2IE_get_title :: "py \<Rightarrow> py ex" where
  "Kanal2IE_get_title info =
    bnd (lift (item info ''title'')) (\<lambda>title.
    bnd (lift (item info ''subtitle'')) (\<lambda>subtitle.
    if truthy subtitle then
      (case title of
         PStr t \<Rightarrow> bnd (lift (str_plus (t @ '' / '') subtitle)) (\<lambda>full. ret (PStr full))
       | _ \<Rightarrow> raise TypeError)
    else ret title))"

definition Kanal2IE_get_playlist :: "'a world_scheme \<Rightarrow> string \<Rightarrow> py ex" where
  "Kanal2IE_get_playlist w video_id =
     download_json w (''https://kanal2.postimees.ee/player/playlist/'' @ video_id)"

definition Kanal2IE_get_session :: "'a world_scheme \<Rightarrow> py \<Rightarrow> string \<Rightarrow> py ex" where
  "Kanal2IE_get_session w path video_id =
    bnd (download_json w ''https://sts.postimees.ee/session/register'') (\<lambda>session.
    bnd (lift (item session ''reason'')) (\<lambda>reason.
    if reason \<noteq> PStr ''OK''
    then raise (ExtractorError (PStr ''Kanal2: Unable to obtain session'') False None)
    else ret session))"

text \<open>\<^verbatim>\<open>a + '&s=' + sid\<close>: both additions need strings.\<close>

definition stream_url :: "py \<Rightarrow> py \<Rightarrow> error + py" where
  "stream_url file sid = (case file of
       PStr f \<Rightarrow> (case str_plus (f @ ''&s='') sid of Inl e \<Rightarrow> Inl e | Inr u \<Rightarrow> Inr (PStr u))
     | _ \<Rightarrow> Inl TypeError)"

fun Kanal2IE_streams :: "utils \<Rightarrow> py \<Rightarrow> py list \<Rightarrow> py list \<Rightarrow> py list ex" where
  "Kanal2IE_streams U sid [] formats = ret formats"
| "Kanal2IE_streams U sid (stream # streams) formats =
    bnd (lift (get stream ''file'')) (\<lambda>file.
    if \<not> truthy file then Kanal2IE_streams U sid streams formats
    else
      bnd (lift (stream_url file sid)) (\<lambda>stream_url.
      Kanal2IE_streams U sid streams
        (formats @ [PDict [(''protocol'', PStr ''m3u8''), (''ext'', PStr ''mp4''),
                           (''url'', url_or_none U stream_url)]])))"

text \<open>\<^verbatim>\<open>traverse_obj(obj, path, default=[])\<close>.\<close>

definition traverse_obj_default :: "py \<Rightarrow> string list \<Rightarrow> py \<Rightarrow> py" where
  "traverse_obj_default obj path d = (case traverse_obj obj path of PNone \<Rightarrow> d | v \<Rightarrow> v)"

definition Kanal2IE_get_formats :: "utils \<Rightarrow> 'a world_scheme \<Rightarrow> py \<Rightarrow> string \<Rightarrow> py list ex" where
  "Kanal2IE_get_formats U w playlist video_id =
    bnd (Kanal2IE_get_session w (traverse_obj playlist [''data'', ''path'']) video_id) (\<lambda>session.
    bnd (lift (get session ''session'')) (\<lambda>sid.
    bnd (lift (py_iter (traverse_obj_default playlist [''data'', ''streams''] (PList [])))) (\<lambda>streams.
    bnd (Kanal2IE_streams U sid streams []) (\<lambda>formats.
    ret (sort_formats U formats)))))"

definition Kanal2IE_real_extract :: "utils \<Rightarrow> host \<Rightarrow> 'a world_scheme \<Rightarrow> string \<Rightarrow> py ex" where
  "Kanal2IE_real_extract U h w u =
    bnd (match_id_ex Kanal2IE_VALID_URL u) (\<lambda>video_id.
    bnd (Kanal2IE_get_playlist w video_id) (\<lambda>playlist.
    bnd (lift (get playlist ''info'')) (\<lambda>info.
    bnd (Kanal2IE_get_title info) (\<lambda>title.
    bnd (Kanal2IE_get_formats U w playlist video_id) (\<lambda>formats.
    bnd (Kanal2IE_get_timestamp h (traverse_obj playlist [''info'', ''subtitle''])) (\<lambda>timestamp.
    ret (PDict [
      (''id'', PStr video_id),
      (''title'', title),
      (''description'', traverse_obj playlist [''info'', ''description'']),
      (''webpage_url'', traverse_obj playlist [''data'', ''url'']),
      (''thumbnail'', traverse_obj playlist [''data'', ''image'']),
      (''formats'', PList formats),
      (''timestamp'', timestamp)])))))))"

text \<open>
  Hosts: one whose local time zone is UTC, one in the zone of Tallinn in August 2016 (three
  hours east of UTC); both with \<^verbatim>\<open>pytz\<close>, which gives Tallinn that offset of three hours.
\<close>

definition tallinn_summer :: "datetime \<Rightarrow> error + timedelta" where
  "tallinn_summer t = Inr \<lparr>days = 0, seconds = 10800, microseconds = 0\<rparr>"

definition utc_host :: host where
  "utc_host = \<lparr>local_utcoffset = (\<lambda>t. 0), pytz_tallinn_utcoffset = Some tallinn_summer\<rparr>"

definition tallinn_host :: host where
  "tallinn_host = \<lparr>local_utcoffset = (\<lambda>t. 10800), pytz_tallinn_utcoffset = Some tallinn_summer\<rparr>"

text \<open>The playlist of the fixture, and the session service.\<close>

definition kanal2_playlist :: py where
  "kanal2_playlist = PDict [
     (''info'', PDict [(''title'', PStr ''Aedniku aabits''),
                       (''subtitle'', PStr ''Osa 53  (05.08.2016 20:00)''),
                       (''description'', PStr ''Aedniku aabits'')]),
     (''data'', PDict [(''url'', PStr ''https://kanal2.postimees.ee/pluss/video/?id=40792''),
                       (''image'', PStr ''https://kanal2.postimees.ee/image/40792.jpg''),
                       (''path'', PStr ''/kanal2/40792''),
                       (''streams'', PList [PDict [(''file'', PStr ''https://kanal2.postimees.ee/40792/playlist.m3u8?a=1'')]])])]"

definition kanal2_world :: world where
  "kanal2_world = \<lparr>
     json_reply = (\<lambda>n u. if n = 0 then Inr kanal2_playlist
                         else Inr (PDict [(''reason'', PStr ''OK''), (''session'', PStr ''sid'')])),
     page_reply = (\<lambda>n u. Inr []),
     m3u8_reply = (\<lambda>u. Inr ([], PDict [])),
     f4m_reply = (\<lambda>u. []), mpd_reply = (\<lambda>u. ([], PDict [])), ism_reply = (\<lambda>u. ([], PDict []))\<rparr>"

definition kanal2_url :: string where
  "kanal2_url = ''https://kanal2.postimees.ee/pluss/video/?id=40792''"

definition kanal2_subtitle :: string where
  "kanal2_subtitle = ''Osa 53  (05.08.2016 20:00)''"

definition kanal2_date :: datetime where
  "kanal2_date = \<lparr>year = 2016, month = 8, day = 5, hour = 20, minute = 0\<rparr>"

text \<open>What the extractor returns for the fixture on a host whose local time is \<open>t\<close>.\<close>

definition kanal2_record :: "rat \<Rightarrow> py" where
  "kanal2_record t = PDict
        [(''id'', PStr ''40792''),
         (''title'', PStr ''Aedniku aabits / Osa 53  (05.08.2016 20:00)''),
         (''description'', PStr ''Aedniku aabits''),
         (''webpage_url'', PStr ''https://kanal2.postimees.ee/pluss/video/?id=40792''),
         (''thumbnail'', PStr ''https://kanal2.postimees.ee/image/40792.jpg''),
         (''formats'', PList [PDict [(''protocol'', PStr ''m3u8''), (''ext'', PStr ''mp4''),
              (''url'', PStr ''https://kanal2.postimees.ee/40792/playlist.m3u8?a=1&s=sid'')]]),
         (''timestamp'', PFloat t)]"

section \<open>jtbc.py\<close>

text \<open>\<^verbatim>\<open>data-vod="(VO\d+)"\<close>, \<^verbatim>\<open>\d{8}\<close> and \<^verbatim>\<open>/playlist(?:_pd\d+)?\.m3u8\<close>.\<close>

definition data_vod_rx :: rx where
  "data_vod_rx = seqs [Str (''data-vod='' @ [CHR 0x22]), Group ''1'' (Seq (Str ''VO'') (Plus Digit)),
                       Str [CHR 0x22]]"

definition eight_digits_rx :: rx where
  "eight_digits_rx = Rep 8 Digit"

definition playlist_rx :: rx where
  "playlist_rx = seqs [Str ''/playlist'', Opt (Seq (Str ''_pd'') (Plus Digit)), Str ''.m3u8'']"

text \<open>
  Modelled from the spec: \<^verbatim>\<open>_search_regex(pattern, string, name)\<close> (base class, not under
  src/) without a default: the first group of the leftmost match; not finding the pattern
  is a failure that propagates.
\<close>

definition search_regex :: "rx \<Rightarrow> string \<Rightarrow> string \<Rightarrow> string ex" where
  "search_regex r s name = (case re_search r s of
       None \<Rightarrow> raise (RegexNotFoundError name)
     | Some c \<Rightarrow> (case re_group c ''1'' of None \<Rightarrow> raise (RegexNotFoundError name) | Some g \<Rightarrow> ret g))"

text \<open>The text a pattern matches at the start of a string: group 0 of \<^verbatim>\<open>re.match\<close>.\<close>

definition re_match_text :: "rx \<Rightarrow> string \<Rightarrow> string option" where
  "re_match_text r s = (case rmatch r s of [] \<Rightarrow> None
                        | (rest, c) # _ \<Rightarrow> Some (take (length s - length rest) s))"

text \<open>
  \<^verbatim>\<open>re.sub(pattern, repl, s)\<close> for a pattern that matches no empty text: from left to
  right, each match is replaced and the search goes on behind it. The fuel is the length of
  the text.
\<close>

primrec re_sub_from :: "nat \<Rightarrow> rx \<Rightarrow> string \<Rightarrow> string \<Rightarrow> string" where
  "re_sub_from 0 r repl s = s"
| "re_sub_from (Suc n) r repl s =
     (case s of
        [] \<Rightarrow> []
      | c # cs \<Rightarrow>
          (case rmatch r s of
             (rest, caps) # _ \<Rightarrow>
               (if length rest < length s then repl @ re_sub_from n r repl rest
                else c # re_sub_from n r repl cs)
           | [] \<Rightarrow> c # re_sub_from n r repl cs))"

definition re_sub :: "rx \<Rightarrow> string \<Rightarrow> string \<Rightarrow> string" where
  "re_sub r repl s = re_sub_from (length s) r repl s"

text \<open>
  Modelled from the spec: the branching forms of \<^verbatim>\<open>traverse_obj\<close> (utility module, not
  under src/) that \<^verbatim>\<open>JTBCIE\<close> uses. A filter \<^verbatim>\<open>lambda _, v: v['file']\<close> keeps, of the items of a
  list or the values of a dictionary, those for which the test is true; a test that raises
  counts as false, and anything else than a list or dictionary has no items.
\<close>

fun dict_values :: "(string \<times> py) list \<Rightarrow> py list" where
  "dict_values [] = []"
| "dict_values ((k, v) # kvs) = v # dict_values (filter (\<lambda>(k', v'). k' \<noteq> k) kvs)"

definition has_file :: "py \<Rightarrow> bool" where
  "has_file v = (case item v ''file'' of Inl e \<Rightarrow> False | Inr f \<Rightarrow> truthy f)"

definition traverse_files :: "py \<Rightarrow> string list \<Rightarrow> py list" where
  "traverse_files obj path = (case traverse_obj obj path of
       PList xs \<Rightarrow> filter has_file xs
     | PDict kvs \<Rightarrow> filter has_file (dict_values kvs)
     | _ \<Rightarrow> [])"

text \<open>
  The \<^verbatim>\<open>release_date\<close> of the template:
  \<^verbatim>\<open>('broadcastDate', {lambda x: re.match(r'\d{8}', x.replace('.', ''))}, 0)\<close>. Only a string
  has \<^verbatim>\<open>replace\<close>; the traversal turns the exception, and a failed match, into \<^verbatim>\<open>None\<close>.
\<close>

definition JTBCIE_release_date :: "py \<Rightarrow> py" where
  "JTBCIE_release_date x = (case x of
       PStr s \<Rightarrow> (case re_match_text eight_digits_rx (filter (\<lambda>c. c \<noteq> CHR ''.'') s) of
                    None \<Rightarrow> PNone | Some d \<Rightarrow> PStr d)
     | _ \<Rightarrow> PNone)"

text \<open>
  The dictionary \<^verbatim>\<open>traverse_obj(metadata, ('vodDetail', {...}))\<close> builds: the entries of
  the template whose value is not \<^verbatim>\<open>None\<close>; always a dictionary, also when the metadata
  could not be downloaded.
\<close>

definition JTBCIE_vod_detail :: "utils \<Rightarrow> py \<Rightarrow> (string \<times> py) list" where
  "JTBCIE_vod_detail U metadata =
    (let detail = traverse_obj metadata [''vodDetail''] in
     filter (\<lambda>(k, v). v \<noteq> PNone)
       [(''title'', traverse_obj detail [''vodTitleView'']),
        (''series'', traverse_obj detail [''programTitle'']),
        (''age_limit'', int_or_none U (traverse_obj detail [''watchAge''])),
        (''release_date'', JTBCIE_release_date (traverse_obj detail [''broadcastDate''])),
        (''description'', traverse_obj detail [''episodeContents'']),
        (''thumbnail'', url_or_none U (traverse_obj detail [''imgFileUrl'']))])"

text \<open>
  The loop over the subtitle tracks. A label is a dictionary key: a list or a dictionary
  cannot be one; a label that is no string is keyed by its rendering.
\<close>

fun JTBCIE_tracks :: "utils \<Rightarrow> py list \<Rightarrow> py \<Rightarrow> py ex" where
  "JTBCIE_tracks U [] subtitles = ret subtitles"
| "JTBCIE_tracks U (sub # subs) subtitles =
    bnd (lift (get_default sub ''label'' (PStr ''und''))) (\<lambda>label.
    bnd (lift (item sub ''file'')) (\<lambda>file.
    bnd (case label of
           PStr l \<Rightarrow> ret l
         | PList xs \<Rightarrow> raise TypeError
         | PDict kvs \<Rightarrow> raise TypeError
         | _ \<Rightarrow> ret (str_of U label)) (\<lambda>key.
    bnd (lift (setdefault_append subtitles key (PDict [(''url'', file)])))
        (JTBCIE_tracks U subs))))"

text \<open>The loop over the HLS sources; \<^verbatim>\<open>_extract_m3u8_formats\<close> is called with \<^verbatim>\<open>fatal=False\<close>.\<close>

fun JTBCIE_streams :: "'a world_scheme \<Rightarrow> py list \<Rightarrow> py list \<Rightarrow> py list ex" where
  "JTBCIE_streams w [] formats = ret formats"
| "JTBCIE_streams w (stream # streams) formats =
    bnd (lift (item stream ''file'')) (\<lambda>file.
    bnd (case file of
           PStr f \<Rightarrow> ret (PStr (re_sub playlist_rx ''/index.m3u8'' f))
         | _ \<Rightarrow> raise TypeError) (\<lambda>m3u8_url.
    JTBCIE_streams w streams
      (formats @ (case m3u8_reply w m3u8_url of Inl e \<Rightarrow> [] | Inr (fmts, subs) \<Rightarrow> fmts))))"

definition jtbc_detail_api :: string where
  "jtbc_detail_api = ''https://now-api.jtbc.co.kr/v1/vod/detail?vodFileId=''"

definition jtbc_vod_api :: string where
  "jtbc_vod_api = ''https://api.jtbc.co.kr/vod/''"

definition JTBCIE_real_extract :: "utils \<Rightarrow> 'a world_scheme \<Rightarrow> string \<Rightarrow> py ex" where
  "JTBCIE_real_extract U w u =
    bnd (match_id_ex JTBCIE_VALID_URL u) (\<lambda>video_id.
    bnd (download_webpage w u) (\<lambda>webpage.
    bnd (search_regex data_vod_rx webpage ''vod id'') (\<lambda>file_id.
    bnd (download_json_nonfatal w (jtbc_detail_api @ file_id)) (\<lambda>metadata.
    bnd (download_json w (jtbc_vod_api @ file_id)) (\<lambda>playback_data.
    bnd (JTBCIE_tracks U (traverse_files playback_data [''tracks'']) (PDict [])) (\<lambda>subtitles.
    bnd (JTBCIE_streams w (traverse_files playback_data [''sources'', ''HLS'']) []) (\<lambda>formats.
    bnd (lift (get playback_data ''playTime'')) (\<lambda>play_time.
    ret (PDict (
      [(''id'', PStr video_id)] @
      JTBCIE_vod_detail U metadata @
      [(''duration'', parse_duration U play_time),
       (''formats'', PList formats),
       (''subtitles'', subtitles)]))))))))))"

text \<open>
  An upstream for the first fixture of \<^verbatim>\<open>JTBCIE\<close>: the page names the file, the detail
  service dates the broadcast, the playback service gives the playing time and one HLS
  source; and helpers that read the playing time as a number of seconds.
\<close>

definition jtbc_url :: string where
  "jtbc_url = ''https://tv.jtbc.co.kr/replay/pr10011629/pm10067930/ep20216321/view''"

definition jtbc_webpage :: string where
  "jtbc_webpage = ''<div id='' @ [CHR 0x22] @ ''player'' @ [CHR 0x22] @ '' data-vod='' @ [CHR 0x22]
                   @ ''VO10790802'' @ [CHR 0x22] @ ''></div>''"

definition jtbc_metadata :: py where
  "jtbc_metadata = PDict [(''vodDetail'', PDict [
     (''vodTitleView'', PStr ''Strong Girl Nam-soon 2''),
     (''programTitle'', PStr ''Strong Girl Nam-soon''),
     (''watchAge'', PStr ''15''),
     (''broadcastDate'', PStr ''2023.10.08''),
     (''imgFileUrl'', PStr ''https://fs.jtbc.co.kr//joydata/CP00000001/prog/drama/stronggirlnamsoon/img/20231008_163541_522_1.jpg'')])]"

definition jtbc_playback_data :: py where
  "jtbc_playback_data = PDict [
     (''playTime'', PStr ''3770''),
     (''sources'', PDict [(''HLS'', PList [PDict [(''file'', PStr ''https://vod.jtbc.co.kr/ep20216321/playlist_pd2000.m3u8'')]])]),
     (''tracks'', PList [PDict [(''file'', PStr ''https://vod.jtbc.co.kr/ep20216321/ko.vtt''), (''label'', PStr ''ko'')]])]"

definition jtbc_world :: world where
  "jtbc_world = \<lparr>
     json_reply = (\<lambda>n u. if u = ''https://api.jtbc.co.kr/vod/VO10790802'' then Inr jtbc_playback_data
                         else Inr jtbc_metadata),
     page_reply = (\<lambda>n u. Inr jtbc_webpage),
     m3u8_reply = (\<lambda>u. Inr ([PDict [(''url'', u)]], PDict [])),
     f4m_reply = (\<lambda>u. []), mpd_reply = (\<lambda>u. ([], PDict [])), ism_reply = (\<lambda>u. ([], PDict []))\<rparr>"

definition jtbc_utils :: utils where
  "jtbc_utils = test_utils \<lparr>parse_duration :=
     (\<lambda>v. case v of PStr s \<Rightarrow> (if s \<noteq> [] \<and> list_all is_digit s then PFloat (of_int (digits_value s)) else PNone)
               | _ \<Rightarrow> PNone)\<rparr>"

section \<open>Properties of the URL patterns\<close>

text \<open>
  C9 (as stated): for every example URL of a module's fixtures, \<^verbatim>\<open>_VALID_URL\<close> accepts the
  URL and its \<^verbatim>\<open>id\<close> group is the identifier the fixture expects. This fails: the VRT
  fixture expects the id \<^verbatim>\<open>pbs-pub-...$vid-...\<close>, which the extractor builds from the
  upstream JSON, while the group captures the display id of the URL. (The Servus fixture
  expects the upper-case form of the capture, and the Manoto live pattern has no group.)
\<close>

theorem C9_vrt_fixture_counterexample:
  "\<not> fixture_id_captured VRTIE_VALID_URL (hd VRTIE_TESTS) \<and>
   match_id VRTIE_VALID_URL (url (hd VRTIE_TESTS)) = Some ''de-ideale-wereld-d20230116'' \<and>
   expected_id (hd VRTIE_TESTS)
     = Some ''pbs-pub-855b00a8-6ce2-4032-ac4f-1fcf3ae78524$vid-d2243aa1-ec46-4e34-a55b-92568459906f''"
  by code_simp

text \<open>
  C9 (amended): every fixture URL is accepted by its module's \<^verbatim>\<open>_VALID_URL\<close>. The \<^verbatim>\<open>id\<close>
  group is the fixture's id for the JTBC, JTBC program, Manoto episode, Manoto show and
  Kanal2 fixtures; for the Servus fixtures it is the lower-case identifier of the URL,
  whose upper-case form is the fixture's id; for the VRT fixture it is the last path
  segment of the URL; the Manoto live pattern has no \<^verbatim>\<open>id\<close> group.
\<close>

theorem C9_fixture_urls:
  "map (suitable JTBCIE_VALID_URL \<circ> url) JTBCIE_TESTS = [True, True, True, True] \<and>
   map (match_id JTBCIE_VALID_URL \<circ> url) JTBCIE_TESTS = map expected_id JTBCIE_TESTS \<and>
   map (suitable JTBCProgramIE_VALID_URL \<circ> url) JTBCProgramIE_TESTS = [True, True] \<and>
   map (match_id JTBCProgramIE_VALID_URL \<circ> url) JTBCProgramIE_TESTS = map expected_id JTBCProgramIE_TESTS \<and>
   map (suitable ManotoTVIE_VALID_URL \<circ> url) ManotoTVIE_TEST = [True] \<and>
   map (match_id ManotoTVIE_VALID_URL \<circ> url) ManotoTVIE_TEST = map expected_id ManotoTVIE_TEST \<and>
   map (suitable ManotoTVShowIE_VALID_URL \<circ> url) ManotoTVShowIE_TESTS = [True] \<and>
   map (match_id ManotoTVShowIE_VALID_URL \<circ> url) ManotoTVShowIE_TESTS = map expected_id ManotoTVShowIE_TESTS \<and>
   map (suitable Kanal2IE_VALID_URL \<circ> url) Kanal2IE_TESTS = [True] \<and>
   map (match_id Kanal2IE_VALID_URL \<circ> url) Kanal2IE_TESTS = map expected_id Kanal2IE_TESTS \<and>
   map (suitable ServusIE_VALID_URL \<circ> url) ServusIE_TESTS = [True, True, True, True] \<and>
   map (match_id ServusIE_VALID_URL \<circ> url) ServusIE_TESTS
     = [Some ''aa-28bycqnh92111'', Some ''aa-24mus4g2w2112'', Some ''aa-1xg5xwmgw2112'',
        Some ''aansszcx3yi9jmlmhdc1''] \<and>
   map_option upper (match_id ServusIE_VALID_URL (url (hd ServusIE_TESTS))) = expected_id (hd ServusIE_TESTS) \<and>
   map (suitable VRTIE_VALID_URL \<circ> url) VRTIE_TESTS = [True] \<and>
   map (match_id VRTIE_VALID_URL \<circ> url) VRTIE_TESTS = [Some ''de-ideale-wereld-d20230116''] \<and>
   map (suitable ManotoTVLiveIE_VALID_URL \<circ> url) ManotoTVLiveIE_TEST = [True] \<and>
   map (match_id ManotoTVLiveIE_VALID_URL \<circ> url) ManotoTVLiveIE_TEST = [None]"
  by code_simp

section \<open>Properties of the extraction monad\<close>

lemma bnd_Inr_iff:
  "(bnd m f tr = (Inr x, tr')) = (\<exists>y tr''. m tr = (Inr y, tr'') \<and> f y tr'' = (Inr x, tr'))"
  by (auto simp: bnd_def split: prod.splits sum.splits)

lemma raise_not_Inr: "raise e tr \<noteq> (Inr x, tr')"
  by (simp add: raise_def)

lemma manoto_fixture_id:
  "match_id ManotoTVIE_VALID_URL ''https://www.manototv.com/episode/12576'' = Some ''12576''"
  by code_simp

section \<open>Properties of manoto.py\<close>

text \<open>
  C4 (as stated): for every episode URL whose episode-details JSON fetch succeeds,
  \<^verbatim>\<open>ManotoTVIE._real_extract\<close> reaches the read of the unassigned \<^verbatim>\<open>ext\<close> and fails with
  an unbound-name error. This fails when the fetched JSON lacks the season number: the
  run ends earlier, at \<^verbatim>\<open>season_number.isdigit()\<close>, with an attribute error.
\<close>

theorem C4_fetch_ok_not_NameError_counterexample:
  "json_reply (json_world (PDict [(''details'', PDict [])])) 0 (manoto_api @ ''12576'')
     = Inr (PDict [(''details'', PDict [])]) \<and>
   result (ManotoTVIE_real_extract (json_world (PDict [(''details'', PDict [])]))
             ''https://www.manototv.com/episode/12576'') = Inl AttributeError \<and>
   Inl AttributeError \<noteq> (Inl (NameError ''ext'') :: error + py)"
  by (simp add: manoto_fixture_id json_world_def ManotoTVIE_real_extract_def result_def run_def
      bnd_def match_id_ex_def ret_def raise_def download_json_def requests_def lift_def get_def
      get_default_def isdigit_or_0_def isdigit_def)

text \<open>
  C4 (amended): \<^verbatim>\<open>ManotoTVIE._real_extract\<close> reads \<^verbatim>\<open>ext\<close> before any assignment, so it
  returns a record for no URL and no upstream; and whenever the fetched episode JSON is a
  dictionary whose \<^verbatim>\<open>details\<close> hold strings for \<^verbatim>\<open>analyticsSeasonNumber\<close> and
  \<^verbatim>\<open>episodeNumber\<close> and an integer \<^verbatim>\<open>durationInMinutes\<close>, the run reaches that read and
  fails with \<^verbatim>\<open>NameError\<close>.
\<close>

theorem C4_manoto_ext_unbound:
  "result (ManotoTVIE_real_extract w u) \<noteq> Inr r \<and>
   (match_id ManotoTVIE_VALID_URL u = Some i \<longrightarrow>
    json_reply w 0 (manoto_api @ i) = Inr (PDict kvs) \<longrightarrow>
    map_of kvs ''details'' = Some (PDict d) \<longrightarrow>
    map_of d ''analyticsSeasonNumber'' = Some (PStr a) \<longrightarrow>
    map_of d ''episodeNumber'' = Some (PStr b) \<longrightarrow>
    map_of d ''durationInMinutes'' = Some (PInt m) \<longrightarrow>
    result (ManotoTVIE_real_extract w u) = Inl (NameError ''ext''))"
proof
  show "result (ManotoTVIE_real_extract w u) \<noteq> Inr r"
  proof
    assume "result (ManotoTVIE_real_extract w u) = Inr r"
    then obtain tr where "ManotoTVIE_real_extract w u [] = (Inr r, tr)"
      by (cases "ManotoTVIE_real_extract w u []") (simp add: result_def run_def)
    then show False
      unfolding ManotoTVIE_real_extract_def bnd_Inr_iff ManotoTVIE_ext_def
      by (auto simp: raise_not_Inr)
  qed
next
  show "match_id ManotoTVIE_VALID_URL u = Some i \<longrightarrow>
    json_reply w 0 (manoto_api @ i) = Inr (PDict kvs) \<longrightarrow>
    map_of kvs ''details'' = Some (PDict d) \<longrightarrow>
    map_of d ''analyticsSeasonNumber'' = Some (PStr a) \<longrightarrow>
    map_of d ''episodeNumber'' = Some (PStr b) \<longrightarrow>
    map_of d ''durationInMinutes'' = Some (PInt m) \<longrightarrow>
    result (ManotoTVIE_real_extract w u) = Inl (NameError ''ext'')"
    by (simp add: manoto_api_def ManotoTVIE_real_extract_def result_def run_def bnd_def
        match_id_ex_def ret_def raise_def download_json_def requests_def lift_def get_def
        get_default_def isdigit_or_0_def isdigit_def py_times_def ManotoTVIE_ext_def)
qed

theorem C4_manoto_ext_unbound_witness:
  "match_id ManotoTVIE_VALID_URL ''https://www.manototv.com/episode/12576'' = Some ''12576'' \<and>
   json_reply (json_world (PDict [(''details'', PDict manoto_details)])) 0 (manoto_api @ ''12576'')
     = Inr (PDict [(''details'', PDict manoto_details)]) \<and>
   map_of manoto_details ''analyticsSeasonNumber'' = Some (PStr '''') \<and>
   map_of manoto_details ''episodeNumber'' = Some (PStr '''') \<and>
   map_of manoto_details ''durationInMinutes'' = Some (PInt 90) \<and>
   result (ManotoTVIE_real_extract (json_world (PDict [(''details'', PDict manoto_details)]))
             ''https://www.manototv.com/episode/12576'') = Inl (NameError ''ext'')"
  using C4_manoto_ext_unbound [of "json_world (PDict [(''details'', PDict manoto_details)])"
      "''https://www.manototv.com/episode/12576''" _ "''12576''"
      "[(''details'', PDict manoto_details)]" manoto_details "''''" "''''" 90]
  by (simp add: manoto_fixture_id json_world_def manoto_details_def)

section \<open>Properties of servus.py\<close>

lemma servus_fixture_id:
  "match_id ServusIE_VALID_URL ''https://www.servustv.com/natur/v/aa-28bycqnh92111/'' = Some ''aa-28bycqnh92111''"
  by code_simp

lemma upper_fixture: "upper ''aa-28bycqnh92111'' = ''AA-28BYCQNH92111''"
  by code_simp

text \<open>
  C3: a video without \<^verbatim>\<open>videoUrl\<close> whose playability error is \<^verbatim>\<open>NOT_YET_AVAILABLE\<close>
  should be logged as a warning and not be fatal. The code logs the warning, returns from
  \<^verbatim>\<open>_report_errors\<close> and then reads \<^verbatim>\<open>video['videoUrl']\<close> all the same: the run ends
  with an uncaught \<^verbatim>\<open>KeyError\<close>.
\<close>

theorem C3_servus_not_yet_available_KeyError:
  "run (ServusIE_real_extract U (json_world servus_not_yet) ''https://www.servustv.com/natur/v/aa-28bycqnh92111/'')
     = (Inl (KeyError (PStr ''videoUrl'')),
        [Request ''https://api-player.redbull.com/stv/servus-tv?timeZone=Europe/Berlin&videoId=AA-28BYCQNH92111'',
         Warning [PStr ''Only available after 2030-01-01T20:15:00Z'']])"
  by (simp add: servus_fixture_id upper_fixture servus_not_yet_def json_world_def
      ServusIE_real_extract_def ServusIE_report_errors_def run_def bnd_def match_id_ex_def ret_def
      raise_def download_json_def requests_def lift_def get_def get_default_def contains_def
      item_def py_iter_def report_warning_def emit_def str_plus_def)







section \<open>Properties of vrt.py: the login flow\<close>

lemma login_attempt_trace:
  "VRTIE_login_attempt w a tr = (r, tr') \<Longrightarrow>
     tr' = tr @ [Request vrtnuinitlogin] \<or> tr' = tr @ [Request vrtnuinitlogin, Request perform_login_url]"
  by (auto simp: VRTIE_login_attempt_def bnd_def request_webpage_def lift_def get_cookie_def raise_def ret_def
           split: sum.splits option.splits prod.splits)

lemma login_loop_stop: "login_attempt \<le> 3 \<Longrightarrow> VRTIE_login_attempt w a tr = (Inr (), tr') \<Longrightarrow>
   VRTIE_login_loop w a login_attempt tr = (Inr (), tr')"
  by (simp add: catch_def)

lemma login_loop_retry: "login_attempt \<le> 3 \<Longrightarrow> VRTIE_login_attempt w a tr = (Inl e, tr') \<Longrightarrow> is_http_401 e \<Longrightarrow>
   VRTIE_login_loop w a login_attempt tr
     = VRTIE_login_loop w a (login_attempt + 1) (tr' @ [Warning [PStr ''Authentication failed''], Sleep 1])"
  by (simp add: catch_def bnd_def report_warning_def emit_def sleep_def del: VRTIE_login_loop.simps
       add: VRTIE_login_loop.simps[of w a login_attempt])

lemma login_loop_reraise: "login_attempt \<le> 3 \<Longrightarrow> VRTIE_login_attempt w a tr = (Inl e, tr') \<Longrightarrow> \<not> is_http_401 e \<Longrightarrow>
   VRTIE_login_loop w a login_attempt tr = (Inl e, tr')"
  by (simp add: catch_def raise_def)

lemma login_loop_end: "3 < login_attempt \<Longrightarrow> VRTIE_login_loop w a login_attempt tr = (Inr (), tr)"
  by (simp add: ret_def)

lemma login_loop_posts:
  "VRTIE_login_loop w a n tr = (r, tr') \<Longrightarrow> login_posts tr' \<le> login_posts tr + (4 - n)"
proof (induction w a n arbitrary: tr rule: VRTIE_login_loop.induct)
  case (1 w a n)
  show ?case
  proof (cases "n \<le> 3")
    case False
    with "1.prems" show ?thesis by (simp add: ret_def)
  next
    case True
    obtain x t1 where A: "VRTIE_login_attempt w a tr = (x, t1)" by (cases "VRTIE_login_attempt w a tr")
    from login_attempt_trace [OF A] have P: "login_posts t1 \<le> login_posts tr + 1"
      by (auto simp: login_posts_def vrtnuinitlogin_def perform_login_url_def)
    show ?thesis
    proof (cases x)
      case (Inr u)
      with True A "1.prems" have "tr' = t1" by (simp add: catch_def)
      with P True show ?thesis by simp
    next
      case (Inl e)
      show ?thesis
      proof (cases "is_http_401 e")
        case False
        with True A Inl "1.prems" have "tr' = t1" by (simp add: catch_def raise_def)
        with P True show ?thesis by simp
      next
        case h: True
        from login_loop_retry [OF True A [unfolded Inl] h] "1.prems"
        have "VRTIE_login_loop w a (n + 1) (t1 @ [Warning [PStr ''Authentication failed''], Sleep 1]) = (r, tr')"
          by simp
        from "1.IH" [OF True h this]
        have "login_posts tr' \<le> login_posts (t1 @ [Warning [PStr ''Authentication failed''], Sleep 1]) + (4 - (n + 1))" .
        with P True show ?thesis by (simp add: login_posts_def)
      qed
    qed
  qed
qed


lemma login_loop_sleeps:
  "VRTIE_login_loop w a n tr = (r, tr') \<Longrightarrow> Sleep s \<in> set tr' \<Longrightarrow> Sleep s \<in> set tr \<or> s = 1"
proof (induction w a n arbitrary: tr rule: VRTIE_login_loop.induct)
  case (1 w a n)
  show ?case
  proof (cases "n \<le> 3")
    case False
    with "1.prems" show ?thesis by (simp add: ret_def)
  next
    case True
    obtain x t1 where A: "VRTIE_login_attempt w a tr = (x, t1)" by (cases "VRTIE_login_attempt w a tr")
    from login_attempt_trace [OF A] have P: "Sleep s \<in> set t1 \<Longrightarrow> Sleep s \<in> set tr"
      by auto
    show ?thesis
    proof (cases x)
      case (Inr u)
      with True A "1.prems" have "tr' = t1" by (simp add: catch_def)
      with P "1.prems" show ?thesis by simp
    next
      case (Inl e)
      show ?thesis
      proof (cases "is_http_401 e")
        case False
        with True A Inl "1.prems" have "tr' = t1" by (simp add: catch_def raise_def)
        with P "1.prems" show ?thesis by simp
      next
        case h: True
        from login_loop_retry [OF True A [unfolded Inl] h] "1.prems"
        have "VRTIE_login_loop w a (n + 1) (t1 @ [Warning [PStr ''Authentication failed''], Sleep 1]) = (r, tr')"
          by simp
        from "1.IH" [OF True h this "1.prems"(2)]
        have "Sleep s \<in> set (t1 @ [Warning [PStr ''Authentication failed''], Sleep 1]) \<or> s = 1" .
        with P show ?thesis by auto
      qed
    qed
  qed
qed

lemma perform_login_trace:
  "VRTIE_perform_login w username password [] = (r, tr') \<Longrightarrow>
     tr' = [gigya_request] \<or> (\<exists>a x. VRTIE_login_loop w a 1 [gigya_request] = (x, tr'))"
  by (auto simp: VRTIE_perform_login_def bnd_def gigya_login_def gigya_request_def lift_def raise_def ret_def
           split: sum.splits prod.splits if_splits)

lemma login_posts_le_3: "login_posts (events (VRTIE_perform_login w username password)) \<le> 3"
proof -
  obtain r tr' where R: "VRTIE_perform_login w username password [] = (r, tr')"
    by (cases "VRTIE_perform_login w username password []")
  from perform_login_trace [OF R] show ?thesis
  proof
    assume "tr' = [gigya_request]"
    with R show ?thesis by (simp add: events_def run_def login_posts_def gigya_request_def perform_login_url_def)
  next
    assume "\<exists>a x. VRTIE_login_loop w a 1 [gigya_request] = (x, tr')"
    then obtain a x where "VRTIE_login_loop w a 1 [gigya_request] = (x, tr')" by blast
    from login_loop_posts [OF this] R show ?thesis
      by (simp add: events_def run_def login_posts_def gigya_request_def perform_login_url_def)
  qed
qed

lemma login_sleeps_1: "Sleep s \<in> set (events (VRTIE_perform_login w username password)) \<Longrightarrow> s = 1"
proof -
  assume S: "Sleep s \<in> set (events (VRTIE_perform_login w username password))"
  obtain r tr' where R: "VRTIE_perform_login w username password [] = (r, tr')"
    by (cases "VRTIE_perform_login w username password []")
  from perform_login_trace [OF R] show ?thesis
  proof
    assume "tr' = [gigya_request]"
    with R S show ?thesis by (simp add: events_def run_def gigya_request_def)
  next
    assume "\<exists>a x. VRTIE_login_loop w a 1 [gigya_request] = (x, tr')"
    then obtain a x where "VRTIE_login_loop w a 1 [gigya_request] = (x, tr')" by blast
    from login_loop_sleeps [OF this, of s] R S show ?thesis
      by (simp add: events_def run_def gigya_request_def)
  qed
qed

lemmas vrt_login_defs =
  VRTIE_perform_login_def vrt_login_world_def run_def events_def result_def bnd_def gigya_login_def
  lift_def get_def get_default_def vrt_auth_info_def truthy_def ret_def catch_def
  VRTIE_login_attempt_def request_webpage_def requests_def item_def get_cookie_def raise_def
  http_error_def is_http_401_def report_warning_def emit_def sleep_def perform_login_url_def
  vrtnuinitlogin_def gigya_request_def failed_attempt_def

text \<open>
  C2: when every login POST is answered with HTTP 401, the failure should reach the caller
  as an error once the three attempts are used up. In the code the loop just ends after
  the third failure and \<^verbatim>\<open>_perform_login\<close> goes on to set \<^verbatim>\<open>_authenticated = True\<close>: it
  returns normally, having reported three warnings.
\<close>

theorem C2_vrt_login_401_swallowed:
  "run (VRTIE_perform_login vrt_login_world_401 ''user'' ''secret'')
     = (Inr True, gigya_request # failed_attempt @ failed_attempt @ failed_attempt)"
  by (simp add: vrt_login_world_401_def vrt_login_defs)

text \<open>
  C5: the login POST is sent at most three times; every sleep of the flow lasts one
  second; an attempt that succeeds ends the loop at once; an attempt that fails with HTTP
  401 is followed by a warning, a sleep of one second and the next attempt; an attempt
  that fails otherwise ends the loop with that error; after the third attempt there is no
  further one.
\<close>

theorem C5_vrt_login_retry:
  "login_posts (events (VRTIE_perform_login w username password)) \<le> 3 \<and>
   (Sleep s \<in> set (events (VRTIE_perform_login w username password)) \<longrightarrow> s = 1) \<and>
   (login_attempt \<le> 3 \<longrightarrow> VRTIE_login_attempt w a tr = (Inr (), tr') \<longrightarrow>
      VRTIE_login_loop w a login_attempt tr = (Inr (), tr')) \<and>
   (login_attempt \<le> 3 \<longrightarrow> VRTIE_login_attempt w a tr = (Inl e, tr') \<longrightarrow> is_http_401 e \<longrightarrow>
      VRTIE_login_loop w a login_attempt tr
        = VRTIE_login_loop w a (login_attempt + 1)
            (tr' @ [Warning [PStr ''Authentication failed''], Sleep 1])) \<and>
   (login_attempt \<le> 3 \<longrightarrow> VRTIE_login_attempt w a tr = (Inl e, tr') \<longrightarrow> \<not> is_http_401 e \<longrightarrow>
      VRTIE_login_loop w a login_attempt tr = (Inl e, tr')) \<and>
   (3 < login_attempt \<longrightarrow> VRTIE_login_loop w a login_attempt tr = (Inr (), tr))"
  using login_posts_le_3 [of w username password] login_sleeps_1 [of s w username password]
    login_loop_stop [of login_attempt w a tr tr'] login_loop_retry [of login_attempt w a tr e tr']
    login_loop_reraise [of login_attempt w a tr e tr'] login_loop_end [of login_attempt w a tr]
  by blast

theorem C5_vrt_login_retry_witness:
  "VRTIE_login_attempt vrt_login_world_401_once vrt_auth_info [gigya_request]
     = (Inl (http_error 401), [gigya_request, Request vrtnuinitlogin, Request perform_login_url]) \<and>
   is_http_401 (http_error 401) \<and>
   VRTIE_login_attempt vrt_login_world_401_once vrt_auth_info (gigya_request # failed_attempt)
     = (Inr (), gigya_request # failed_attempt @ [Request vrtnuinitlogin, Request perform_login_url]) \<and>
   VRTIE_login_loop vrt_login_world_401_once vrt_auth_info 1 [gigya_request]
     = (Inr (), gigya_request # failed_attempt @ [Request vrtnuinitlogin, Request perform_login_url]) \<and>
   run (VRTIE_perform_login vrt_login_world_401_once ''user'' ''secret'')
     = (Inr True, gigya_request # failed_attempt @ [Request vrtnuinitlogin, Request perform_login_url]) \<and>
   Sleep 1 \<in> set (events (VRTIE_perform_login vrt_login_world_401_once ''user'' ''secret'')) \<and>
   login_posts (events (VRTIE_perform_login vrt_login_world_401_once ''user'' ''secret'')) = 2 \<and>
   VRTIE_login_attempt vrt_login_world_500 vrt_auth_info [gigya_request]
     = (Inl (http_error 500), [gigya_request, Request vrtnuinitlogin, Request perform_login_url]) \<and>
   \<not> is_http_401 (http_error 500) \<and>
   VRTIE_login_loop vrt_login_world_500 vrt_auth_info 1 [gigya_request]
     = (Inl (http_error 500), [gigya_request, Request vrtnuinitlogin, Request perform_login_url]) \<and>
   (3::nat) < 4 \<and>
   VRTIE_login_loop vrt_login_world_401 vrt_auth_info 4 [] = (Inr (), [])"
  using C5_vrt_login_retry [of vrt_login_world_401_once "''user''" "''secret''" 1 1 vrt_auth_info
      "[gigya_request]" "[gigya_request, Request vrtnuinitlogin, Request perform_login_url]" "http_error 401"]
    C5_vrt_login_retry [of vrt_login_world_401_once "''user''" "''secret''" 1 2 vrt_auth_info
      "gigya_request # failed_attempt"
      "gigya_request # failed_attempt @ [Request vrtnuinitlogin, Request perform_login_url]" "http_error 401"]
    C5_vrt_login_retry [of vrt_login_world_500 "''user''" "''secret''" 1 1 vrt_auth_info
      "[gigya_request]" "[gigya_request, Request vrtnuinitlogin, Request perform_login_url]" "http_error 500"]
    C5_vrt_login_retry [of vrt_login_world_401 "''user''" "''secret''" 1 4 vrt_auth_info "[]" "[]" "http_error 401"]
  by (simp add: vrt_login_world_401_once_def vrt_login_world_500_def vrt_login_world_401_def
      login_posts_def vrt_login_defs)

section \<open>Properties of vrt.py: extraction\<close>

lemma vrt_fixture_id: "match_id VRTIE_VALID_URL vrt_url = Some ''de-ideale-wereld-d20230116''"
  by code_simp

lemma vrt_fixture_suitable: "suitable VRTIE_VALID_URL vrt_url"
  by code_simp

lemma manoto_fixture_suitable: "suitable ManotoTVIE_VALID_URL ''https://www.manototv.com/episode/12576''"
  by code_simp

text \<open>
  Against the page model of the fixture, an unauthenticated run gets as far as the check
  of the media item, whatever the media-items service answers; an error raised by the
  check is the error of the run.
\<close>

lemma vrt_reaches_check:
  "VRTIE_check_video_info vi vrt_requests = (Inl e, tr) \<Longrightarrow>
   run (VRTIE_real_extract test_utils (vrt_world vrt_model_json vi) False vrt_url) = (Inl e, tr)"
  by (simp add: vrt_requests_def vrt_fixture_id VRTIE_real_extract_def run_def bnd_def match_id_ex_def
      ret_def download_json_def requests_def vrt_world_def lift_def get_def get_default_def
      vrt_model_json_def index_def test_utils_def item_def REST_API_BASE_TOKEN_def
      REST_API_BASE_VIDEO_def)

lemma vrt_check_geo:
  "map_of kvs ''title'' = None \<Longrightarrow> map_of kvs ''code'' = Some (PStr ''INVALID_LOCATION'') \<Longrightarrow>
     VRTIE_check_video_info (PDict kvs) tr = (Inl (GeoRestrictedError [''BE'']), tr)"
  by (simp add: VRTIE_check_video_info_def bnd_def lift_def contains_def get_def get_default_def
      raise_geo_restricted_def raise_def)

lemma vrt_check_login:
  "map_of kvs ''title'' = None \<Longrightarrow> map_of kvs ''code'' = Some (PStr ''AUTHENTICATION_REQUIRED'') \<Longrightarrow>
     VRTIE_check_video_info (PDict kvs) tr = (Inl LoginRequiredError, tr)"
  by (simp add: VRTIE_check_video_info_def bnd_def lift_def contains_def get_def get_default_def
      raise_login_required_def raise_def)

lemma vrt_check_other:
  "map_of kvs ''title'' = None \<Longrightarrow> get (PDict kvs) ''code'' = Inr code \<Longrightarrow>
   code \<noteq> PStr ''INVALID_LOCATION'' \<Longrightarrow> code \<noteq> PStr ''AUTHENTICATION_REQUIRED'' \<Longrightarrow>
   get (PDict kvs) ''message'' = Inr message \<Longrightarrow>
     VRTIE_check_video_info (PDict kvs) tr = (Inl (ExtractorError (py_or message code) True None), tr)"
  by (simp add: VRTIE_check_video_info_def bnd_def lift_def contains_def get_def get_default_def
      raise_def ret_def)

text \<open>
  C6: a media item without \<^verbatim>\<open>title\<close> whose code is \<^verbatim>\<open>INVALID_LOCATION\<close> raises the
  geo-restriction signal with the countries \<^verbatim>\<open>['BE']\<close>; with the code
  \<^verbatim>\<open>AUTHENTICATION_REQUIRED\<close> it raises the login-required signal; with any other code it
  raises an extraction error marked as expected whose message is the upstream message
  (the code when the message is missing or empty). This holds for the check on its own,
  after any log, and for the whole extraction of the fixture's episode.
\<close>

theorem C6_vrt_error_mapping:
  "(map_of kvs ''title'' = None \<longrightarrow> map_of kvs ''code'' = Some (PStr ''INVALID_LOCATION'') \<longrightarrow>
      VRTIE_check_video_info (PDict kvs) tr = (Inl (GeoRestrictedError [''BE'']), tr) \<and>
      result (VRTIE_real_extract test_utils (vrt_world vrt_model_json (PDict kvs)) False vrt_url)
        = Inl (GeoRestrictedError [''BE''])) \<and>
   (map_of kvs ''title'' = None \<longrightarrow> map_of kvs ''code'' = Some (PStr ''AUTHENTICATION_REQUIRED'') \<longrightarrow>
      VRTIE_check_video_info (PDict kvs) tr = (Inl LoginRequiredError, tr) \<and>
      result (VRTIE_real_extract test_utils (vrt_world vrt_model_json (PDict kvs)) False vrt_url)
        = Inl LoginRequiredError) \<and>
   (map_of kvs ''title'' = None \<longrightarrow> get (PDict kvs) ''code'' = Inr code \<longrightarrow>
      code \<noteq> PStr ''INVALID_LOCATION'' \<longrightarrow> code \<noteq> PStr ''AUTHENTICATION_REQUIRED'' \<longrightarrow>
      get (PDict kvs) ''message'' = Inr message \<longrightarrow>
      VRTIE_check_video_info (PDict kvs) tr = (Inl (ExtractorError (py_or message code) True None), tr) \<and>
      result (VRTIE_real_extract test_utils (vrt_world vrt_model_json (PDict kvs)) False vrt_url)
        = Inl (ExtractorError (py_or message code) True None) \<and>
      (truthy message \<longrightarrow> py_or message code = message))"
proof (intro conjI impI)
  assume h: "map_of kvs ''title'' = None" "map_of kvs ''code'' = Some (PStr ''INVALID_LOCATION'')"
  show "VRTIE_check_video_info (PDict kvs) tr = (Inl (GeoRestrictedError [''BE'']), tr)"
    by (rule vrt_check_geo [OF h])
  show "result (VRTIE_real_extract test_utils (vrt_world vrt_model_json (PDict kvs)) False vrt_url)
          = Inl (GeoRestrictedError [''BE''])"
    using vrt_reaches_check [OF vrt_check_geo [OF h]] by (simp add: result_def)
next
  assume h: "map_of kvs ''title'' = None" "map_of kvs ''code'' = Some (PStr ''AUTHENTICATION_REQUIRED'')"
  show "VRTIE_check_video_info (PDict kvs) tr = (Inl LoginRequiredError, tr)"
    by (rule vrt_check_login [OF h])
  show "result (VRTIE_real_extract test_utils (vrt_world vrt_model_json (PDict kvs)) False vrt_url)
          = Inl LoginRequiredError"
    using vrt_reaches_check [OF vrt_check_login [OF h]] by (simp add: result_def)
next
  assume h: "map_of kvs ''title'' = None" "get (PDict kvs) ''code'' = Inr code"
    "code \<noteq> PStr ''INVALID_LOCATION''" "code \<noteq> PStr ''AUTHENTICATION_REQUIRED''"
    "get (PDict kvs) ''message'' = Inr message"
  show "VRTIE_check_video_info (PDict kvs) tr = (Inl (ExtractorError (py_or message code) True None), tr)"
    by (rule vrt_check_other [OF h])
  show "result (VRTIE_real_extract test_utils (vrt_world vrt_model_json (PDict kvs)) False vrt_url)
          = Inl (ExtractorError (py_or message code) True None)"
    using vrt_reaches_check [OF vrt_check_other [OF h]] by (simp add: result_def)
  show "py_or message code = message" if "truthy message"
    using that by (simp add: py_or_def)
qed

theorem C6_vrt_error_mapping_witness:
  "result (VRTIE_real_extract test_utils (vrt_world vrt_model_json vrt_invalid_location) False vrt_url)
     = Inl (GeoRestrictedError [''BE'']) \<and>
   result (VRTIE_real_extract test_utils (vrt_world vrt_model_json vrt_authentication_required) False vrt_url)
     = Inl LoginRequiredError \<and>
   result (VRTIE_real_extract test_utils (vrt_world vrt_model_json vrt_incomplete) False vrt_url)
     = Inl (ExtractorError (PStr ''The roaming configuration is incomplete.'') True None) \<and>
   contains ''title'' vrt_invalid_location = Inr False \<and>
   contains ''title'' vrt_authentication_required = Inr False \<and>
   contains ''title'' vrt_incomplete = Inr False \<and>
   get vrt_invalid_location ''code'' = Inr (PStr ''INVALID_LOCATION'') \<and>
   get vrt_authentication_required ''code'' = Inr (PStr ''AUTHENTICATION_REQUIRED'') \<and>
   get vrt_incomplete ''code'' = Inr (PStr ''INCOMPLETE_ROAMING_CONFIG'') \<and>
   get vrt_incomplete ''message'' = Inr (PStr ''The roaming configuration is incomplete.'') \<and>
   truthy (PStr ''The roaming configuration is incomplete.'')"
  using
    C6_vrt_error_mapping [of "[(''code'', PStr ''INVALID_LOCATION''),
        (''message'', PStr ''The content is not available in your location.'')]" "[]"
        "PStr ''INVALID_LOCATION''" "PStr ''The content is not available in your location.''"]
    C6_vrt_error_mapping [of "[(''code'', PStr ''AUTHENTICATION_REQUIRED''),
        (''message'', PStr ''Please log in.'')]" "[]"
        "PStr ''AUTHENTICATION_REQUIRED''" "PStr ''Please log in.''"]
    C6_vrt_error_mapping [of "[(''code'', PStr ''INCOMPLETE_ROAMING_CONFIG''),
        (''message'', PStr ''The roaming configuration is incomplete.'')]" "[]"
        "PStr ''INCOMPLETE_ROAMING_CONFIG''" "PStr ''The roaming configuration is incomplete.''"]
  by (simp add: vrt_invalid_location_def vrt_authentication_required_def vrt_incomplete_def
      get_def get_default_def contains_def py_or_def truthy_def)

text \<open>
  C8: there are well-formed URLs and upstream answers lacking a field for which extraction
  ends with an uncaught attribute error, not with an extraction error: the VRT page model
  without \<^verbatim>\<open>details\<close> (\<^verbatim>\<open>details.get\<close> on \<^verbatim>\<open>None\<close>), for any helpers, media item and login
  state, and the Manoto episode details without \<^verbatim>\<open>analyticsSeasonNumber\<close>
  (\<^verbatim>\<open>season_number.isdigit()\<close> on \<^verbatim>\<open>None\<close>).
\<close>

theorem C8_missing_field_uncaught:
  "suitable VRTIE_VALID_URL vrt_url \<and>
   get (PDict []) ''details'' = Inr PNone \<and>
   result (VRTIE_real_extract U (vrt_world (PDict []) video_info) authenticated vrt_url) = Inl AttributeError \<and>
   suitable ManotoTVIE_VALID_URL ''https://www.manototv.com/episode/12576'' \<and>
   get (PDict manoto_details_no_season) ''analyticsSeasonNumber'' = Inr PNone \<and>
   get (PDict manoto_details_no_season) ''episodeNumber'' = Inr (PStr '''') \<and>
   result (ManotoTVIE_real_extract (json_world (PDict [(''details'', PDict manoto_details_no_season)]))
             ''https://www.manototv.com/episode/12576'') = Inl AttributeError"
  by (simp add: vrt_fixture_suitable manoto_fixture_suitable vrt_fixture_id manoto_fixture_id
      VRTIE_real_extract_def ManotoTVIE_real_extract_def manoto_details_no_season_def manoto_details_def
      json_world_def vrt_world_def result_def run_def bnd_def match_id_ex_def ret_def download_json_def
      requests_def lift_def get_def get_default_def isdigit_or_0_def isdigit_def)

section \<open>Properties of kanal2.py\<close>

lemma kanal2_subtitle_match:
  "search_regex_default SUBTITLE_DATE_RE (PStr kanal2_subtitle) = Inr (PStr ''05.08.2016 20:00'')"
  by code_simp

lemma kanal2_strptime: "strptime ''05.08.2016 20:00'' = Inr kanal2_date"
  by code_simp

lemma kanal2_timegm: "timegm kanal2_date = 1470427200"
  by code_simp

text \<open>
  The time stamp of the fixture's subtitle on any host: the date read as UTC, less the
  offset of the host's own time zone; \<^verbatim>\<open>pytz\<close> adds the microseconds of Tallinn's offset.
\<close>

lemma kanal2_timestamp_of_host:
  "result (Kanal2IE_get_timestamp h (PStr kanal2_subtitle)) =
     (case pytz_tallinn_utcoffset h of
        None \<Rightarrow> Inr (PFloat (of_int (1470427200 - local_utcoffset h kanal2_date)))
      | Some utcoffset \<Rightarrow>
          (case utcoffset kanal2_date of
             Inl e \<Rightarrow> Inl e
           | Inr offset \<Rightarrow> Inr (PFloat (of_int (1470427200 - local_utcoffset h kanal2_date + microseconds offset)))))"
  by (simp add: Kanal2IE_get_timestamp_def kanal2_subtitle_match [unfolded kanal2_subtitle_def]
      kanal2_strptime kanal2_timegm mktime_def result_def run_def bnd_def lift_def ret_def
      truthy_def kanal2_subtitle_def split: option.splits sum.splits)

text \<open>
  C7: the fixture expects the time stamp 1470416400 (20:00 in Tallinn) for the subtitle
  \<^verbatim>\<open>Osa 53  (05.08.2016 20:00)\<close>. The code reads the date in the time zone of the host and
  adds the microseconds of Tallinn's offset, which are zero: on a host running in UTC the
  record's time stamp is 1470427200. Only a host three hours east of UTC gives the
  expected value.
\<close>

theorem C7_kanal2_timestamp_utc_host:
  "result (Kanal2IE_real_extract test_utils utc_host kanal2_world kanal2_url) = Inr (kanal2_record 1470427200) \<and>
   get (kanal2_record 1470427200) ''timestamp'' = Inr (PFloat 1470427200) \<and>
   result (Kanal2IE_get_timestamp utc_host (PStr kanal2_subtitle)) = Inr (PFloat 1470427200) \<and>
   PFloat 1470427200 \<noteq> PFloat 1470416400 \<and>
   result (Kanal2IE_get_timestamp tallinn_host (PStr kanal2_subtitle)) = Inr (PFloat 1470416400)"
proof (intro conjI)
  show "result (Kanal2IE_real_extract test_utils utc_host kanal2_world kanal2_url) = Inr (kanal2_record 1470427200)"
    by code_simp
  show "get (kanal2_record 1470427200) ''timestamp'' = Inr (PFloat 1470427200)"
    by (simp add: kanal2_record_def get_def get_default_def)
  show "result (Kanal2IE_get_timestamp utc_host (PStr kanal2_subtitle)) = Inr (PFloat 1470427200)"
    by (simp add: kanal2_timestamp_of_host utc_host_def tallinn_summer_def)
  show "PFloat 1470427200 \<noteq> PFloat 1470416400"
    by simp
  show "result (Kanal2IE_get_timestamp tallinn_host (PStr kanal2_subtitle)) = Inr (PFloat 1470416400)"
    by (simp add: kanal2_timestamp_of_host tallinn_host_def tallinn_summer_def)
qed

section \<open>Properties of jtbc.py\<close>

lemma jtbc_fixture_id: "match_id JTBCIE_VALID_URL jtbc_url = Some ''ep20216321''"
  by code_simp

lemma jtbc_eight_digits: "rmatch eight_digits_rx (''20231008'' @ rest) = [(rest, [])]"
  by (simp add: eight_digits_rx_def eval_nat_numeral one_char_def and_then_def is_digit_def)

lemma take_8_append: assumes "take 8 s = ''20231008''" shows "\<exists>rest. s = ''20231008'' @ rest"
proof -
  have "s = take 8 s @ drop 8 s" by simp
  with assms show ?thesis by metis
qed

lemma jtbc_release_date:
  assumes "take 8 (filter (\<lambda>c. c \<noteq> CHR ''.'') b) = ''20231008''"
  shows "JTBCIE_release_date (PStr b) = PStr ''20231008''"
proof -
  from take_8_append [OF assms] obtain rest where "filter (\<lambda>c. c \<noteq> CHR ''.'') b = ''20231008'' @ rest" by blast
  then show ?thesis
    by (simp add: JTBCIE_release_date_def re_match_text_def jtbc_eight_digits del: append.simps)
qed

lemma pure_ret: "\<exists>r. \<forall>tr. ret x tr = (r, tr)"
  by (simp add: ret_def)

lemma pure_raise: "\<exists>r. \<forall>tr. raise e tr = (r, tr)"
  by (simp add: raise_def)

lemma pure_lift: "\<exists>r. \<forall>tr. lift v tr = (r, tr)"
  by (simp add: lift_def)

lemma pure_bnd:
  assumes "\<exists>r. \<forall>tr. m tr = (r, tr)" and "\<And>x. \<exists>r. \<forall>tr. f x tr = (r, tr)"
  shows "\<exists>r. \<forall>tr. bnd m f tr = (r, tr)"
proof -
  from assms(1) obtain r where r: "\<forall>tr. m tr = (r, tr)" by blast
  show ?thesis
  proof (cases r)
    case (Inl e)
    with r have "\<forall>tr. bnd m f tr = (Inl e, tr)" by (simp add: bnd_def)
    then show ?thesis by blast
  next
    case (Inr x)
    from assms(2) [of x] obtain r' where "\<forall>tr. f x tr = (r', tr)" by blast
    with r Inr have "\<forall>tr. bnd m f tr = (r', tr)" by (simp add: bnd_def)
    then show ?thesis by blast
  qed
qed

lemma pure_result:
  assumes "\<exists>r. \<forall>tr. m tr = (r, tr)"
  shows "m tr = (result m, tr)"
proof -
  from assms obtain r where r: "\<forall>tr. m tr = (r, tr)" by blast
  then have "result m = r" by (simp add: result_def run_def)
  with r show ?thesis by simp
qed

lemma jtbc_tracks_pure_ex: "\<exists>r. \<forall>tr. JTBCIE_tracks U subs s tr = (r, tr)"
proof (induction subs arbitrary: s)
  case Nil
  show ?case by (simp add: pure_ret)
next
  case (Cons sub subs)
  have key: "\<exists>r. \<forall>tr. (case label of PStr l \<Rightarrow> ret l | PList xs \<Rightarrow> raise TypeError
                | PDict kvs \<Rightarrow> raise TypeError | _ \<Rightarrow> ret (str_of U label)) tr = (r, tr)" for label
    by (cases label) (simp_all add: pure_ret pure_raise)
  show ?case
    unfolding JTBCIE_tracks.simps by (intro pure_bnd pure_lift key Cons.IH)
qed

lemma jtbc_tracks_pure: "JTBCIE_tracks U subs s tr = (result (JTBCIE_tracks U subs s), tr)"
  by (rule pure_result [OF jtbc_tracks_pure_ex])

lemma jtbc_streams_pure_ex: "\<exists>r. \<forall>tr. JTBCIE_streams w streams fs tr = (r, tr)"
proof (induction streams arbitrary: fs)
  case Nil
  show ?case by (simp add: pure_ret)
next
  case (Cons stream streams)
  have url: "\<exists>r. \<forall>tr. (case v of PStr f \<Rightarrow> ret (PStr (re_sub playlist_rx ''/index.m3u8'' f))
                | _ \<Rightarrow> raise TypeError) tr = (r, tr)" for v
    by (cases v) (simp_all add: pure_ret pure_raise)
  show ?case
    unfolding JTBCIE_streams.simps by (intro pure_bnd pure_lift url Cons.IH)
qed

lemma jtbc_streams_pure: "JTBCIE_streams w streams fs tr = (result (JTBCIE_streams w streams fs), tr)"
  by (rule pure_result [OF jtbc_streams_pure_ex])

lemma traverse_obj_two: "traverse_obj (traverse_obj m [a]) [b] = traverse_obj m [a, b]"
  by (cases m) (auto split: option.splits)

lemma vod_detail_release_date:
  assumes "traverse_obj metadata [''vodDetail'', ''broadcastDate''] = PStr b"
    and "take 8 (filter (\<lambda>c. c \<noteq> CHR ''.'') b) = ''20231008''"
  shows "map_of (JTBCIE_vod_detail U metadata) ''release_date'' = Some (PStr ''20231008'')"
  using assms jtbc_release_date [OF assms(2)]
  by (simp add: JTBCIE_vod_detail_def Let_def traverse_obj_two)

lemma vod_detail_other:
  "map_of (JTBCIE_vod_detail U metadata) ''duration'' = None"
  "map_of (JTBCIE_vod_detail U metadata) ''id'' = None"
  by (simp_all add: JTBCIE_vod_detail_def Let_def)

text \<open>
  C1: for the sample URL of the fixture, against upstream answers as the fixture records
  them (a page that names the file of the episode, a detail service whose broadcast date
  is the eighth of October 2023, with or without dots, a playback service whose playing
  time the framework reads as 3770 seconds, and tracks and sources the loops accept),
  extraction returns a record whose \<^verbatim>\<open>id\<close> is \<^verbatim>\<open>ep20216321\<close>, whose \<^verbatim>\<open>duration\<close> is 3770.0
  and whose \<^verbatim>\<open>release_date\<close> is \<^verbatim>\<open>20231008\<close>.
\<close>

theorem C1_jtbc_fixture_record:
  assumes page: "page_reply w 0 jtbc_url = Inr webpage"
    and vod: "re_search data_vod_rx webpage = Some c" "re_group c ''1'' = Some file_id"
    and meta: "json_reply w 1 (jtbc_detail_api @ file_id) = Inr metadata"
    and play: "json_reply w 2 (jtbc_vod_api @ file_id) = Inr playback_data"
    and date: "traverse_obj metadata [''vodDetail'', ''broadcastDate''] = PStr b"
              "take 8 (filter (\<lambda>c. c \<noteq> CHR ''.'') b) = ''20231008''"
    and time: "get playback_data ''playTime'' = Inr play_time" "parse_duration U play_time = PFloat 3770"
    and subs: "result (JTBCIE_tracks U (traverse_files playback_data [''tracks'']) (PDict [])) = Inr subtitles"
    and fmts: "result (JTBCIE_streams w (traverse_files playback_data [''sources'', ''HLS'']) []) = Inr formats"
  shows "\<exists>r. result (JTBCIE_real_extract U w jtbc_url) = Inr r \<and>
             get r ''id'' = Inr (PStr ''ep20216321'') \<and>
             get r ''duration'' = Inr (PFloat 3770) \<and>
             get r ''release_date'' = Inr (PStr ''20231008'')"
proof -
  have tracks: "JTBCIE_tracks U (traverse_files playback_data [''tracks'']) (PDict []) tr = (Inr subtitles, tr)" for tr
    using jtbc_tracks_pure [of U _ _ tr] subs by simp
  have streams: "JTBCIE_streams w (traverse_files playback_data [''sources'', ''HLS'']) [] tr = (Inr formats, tr)" for tr
    using jtbc_streams_pure [of w _ _ tr] fmts by simp
  have m: "match_id_ex JTBCIE_VALID_URL jtbc_url [] = (Inr ''ep20216321'', [])"
    by (simp add: match_id_ex_def jtbc_fixture_id ret_def)
  have p: "download_webpage w jtbc_url [] = (Inr webpage, [Request jtbc_url])"
    using page by (simp add: download_webpage_def requests_def)
  have s: "search_regex data_vod_rx webpage ''vod id'' tr = (Inr file_id, tr)" for tr
    using vod by (simp add: search_regex_def ret_def)
  have j1: "download_json_nonfatal w (jtbc_detail_api @ file_id) [Request jtbc_url]
        = (Inr metadata, [Request jtbc_url, Request (jtbc_detail_api @ file_id)])"
    using meta by (simp add: download_json_nonfatal_def requests_def)
  have j2: "download_json w (jtbc_vod_api @ file_id) [Request jtbc_url, Request (jtbc_detail_api @ file_id)]
        = (Inr playback_data,
           [Request jtbc_url, Request (jtbc_detail_api @ file_id), Request (jtbc_vod_api @ file_id)])"
    using play by (simp add: download_json_def requests_def numeral_2_eq_2)
  have "fst (JTBCIE_real_extract U w jtbc_url []) =
      Inr (PDict ([(''id'', PStr ''ep20216321'')] @ JTBCIE_vod_detail U metadata @
                  [(''duration'', PFloat 3770), (''formats'', PList formats), (''subtitles'', subtitles)]))"
    by (simp add: JTBCIE_real_extract_def bnd_def m p s j1 j2 tracks streams time lift_def ret_def)
  then have run: "result (JTBCIE_real_extract U w jtbc_url) =
      Inr (PDict ([(''id'', PStr ''ep20216321'')] @ JTBCIE_vod_detail U metadata @
                  [(''duration'', PFloat 3770), (''formats'', PList formats), (''subtitles'', subtitles)]))"
    by (simp add: result_def run_def)
  show ?thesis
    unfolding run
    by (simp add: get_def get_default_def vod_detail_release_date [OF date] vod_detail_other map_add_def)
qed

lemma jtbc_world_page: "page_reply jtbc_world 0 jtbc_url = Inr jtbc_webpage"
  by (simp add: jtbc_world_def)

lemma jtbc_world_vod: "re_search data_vod_rx jtbc_webpage = Some [(''1'', ''VO10790802'')]"
  by code_simp

lemma jtbc_world_meta: "json_reply jtbc_world 1 (jtbc_detail_api @ ''VO10790802'') = Inr jtbc_metadata"
  by (simp add: jtbc_world_def jtbc_detail_api_def)

lemma jtbc_world_play: "json_reply jtbc_world 2 (jtbc_vod_api @ ''VO10790802'') = Inr jtbc_playback_data"
  by (simp add: jtbc_world_def jtbc_vod_api_def)

lemma jtbc_world_date: "traverse_obj jtbc_metadata [''vodDetail'', ''broadcastDate''] = PStr ''2023.10.08''"
  by (simp add: jtbc_metadata_def)

lemma jtbc_world_time: "parse_duration jtbc_utils (PStr ''3770'') = PFloat 3770"
  by code_simp

lemma jtbc_world_tracks:
  "result (JTBCIE_tracks jtbc_utils (traverse_files jtbc_playback_data [''tracks'']) (PDict []))
     = Inr (PDict [(''ko'', PList [PDict [(''url'', PStr ''https://vod.jtbc.co.kr/ep20216321/ko.vtt'')]])])"
  by code_simp

lemma jtbc_world_streams:
  "result (JTBCIE_streams jtbc_world (traverse_files jtbc_playback_data [''sources'', ''HLS'']) [])
     = Inr [PDict [(''url'', PStr ''https://vod.jtbc.co.kr/ep20216321/index.m3u8'')]]"
  by code_simp

theorem C1_jtbc_fixture_record_witness:
  "page_reply jtbc_world 0 jtbc_url = Inr jtbc_webpage \<and>
   re_search data_vod_rx jtbc_webpage = Some [(''1'', ''VO10790802'')] \<and>
   json_reply jtbc_world 1 (jtbc_detail_api @ ''VO10790802'') = Inr jtbc_metadata \<and>
   json_reply jtbc_world 2 (jtbc_vod_api @ ''VO10790802'') = Inr jtbc_playback_data \<and>
   traverse_obj jtbc_metadata [''vodDetail'', ''broadcastDate''] = PStr ''2023.10.08'' \<and>
   get jtbc_playback_data ''playTime'' = Inr (PStr ''3770'') \<and>
   parse_duration jtbc_utils (PStr ''3770'') = PFloat 3770 \<and>
   (\<exists>r. result (JTBCIE_real_extract jtbc_utils jtbc_world jtbc_url) = Inr r \<and>
        get r ''id'' = Inr (PStr ''ep20216321'') \<and>
        get r ''duration'' = Inr (PFloat 3770) \<and>
        get r ''release_date'' = Inr (PStr ''20231008''))"
proof -
  have group: "re_group [(''1'', ''VO10790802'')] ''1'' = Some ''VO10790802''"
    by (simp add: re_group_def)
  have date: "take 8 (filter (\<lambda>c. c \<noteq> CHR ''.'') ''2023.10.08'') = ''20231008''"
    by simp
  have time: "get jtbc_playback_data ''playTime'' = Inr (PStr ''3770'')"
    by (simp add: get_def get_default_def jtbc_playback_data_def)
  note fixture_record = C1_jtbc_fixture_record [OF jtbc_world_page jtbc_world_vod group jtbc_world_meta
      jtbc_world_play jtbc_world_date date time jtbc_world_time jtbc_world_tracks jtbc_world_streams]
  show ?thesis
    by (intro conjI)
       (rule jtbc_world_page jtbc_world_vod jtbc_world_meta jtbc_world_play jtbc_world_date
          time jtbc_world_time fixture_record)+
qed

end
